theory Spec2Isabelle
  imports Main "HOL-Library.Sublist"
begin

text \<open>
  The repository holds the same challenge-response flow three times: the package
  \<^verbatim>\<open>siwe-auth-fetch\<close> with \<^verbatim>\<open>authFetch\<close>; a second copy of the package with
  \<^verbatim>\<open>createAuthFetch\<close> and an \<^verbatim>\<open>authFetch\<close> built on it; and the module
  \<^verbatim>\<open>oauth\<close> of the application with \<^verbatim>\<open>fetchWithOAuth\<close>. The parser is the same in
  all three and is modelled once; where the copies differ, the constant of the
  \<^verbatim>\<open>oauth\<close> module carries the suffix \<open>_oauth\<close>.
\<close>

section \<open>JavaScript strings, numbers and the challenge grammar\<close>

text \<open>
  Strings are lists of 8-bit characters. The regular expression of
  \<^verbatim>\<open>parseWWWAuthenticateChallenge\<close> is \<^verbatim>\<open>/(\w+)="([^"]+)"/g\<close>; without the
  \<^verbatim>\<open>u\<close> and \<^verbatim>\<open>i\<close> flags the class \<^verbatim>\<open>\w\<close> is exactly
  \<^verbatim>\<open>[A-Za-z0-9_]\<close>.
\<close>

definition is_word :: "char \<Rightarrow> bool" where
  "is_word c =
     (let n = (of_char c :: nat)
      in (48 \<le> n \<and> n \<le> 57) \<or> (65 \<le> n \<and> n \<le> 90) \<or> n = 95 \<or> (97 \<le> n \<and> n \<le> 122))"

definition not_quote :: "char \<Rightarrow> bool" where
  "not_quote c = (c \<noteq> CHR 0x22)"

text \<open>
  One attempt of the regular expression at the start of a string: the greedy \<^verbatim>\<open>\w+\<close>
  takes the longest run of word characters (a shorter run would be followed by a word
  character, never by \<^verbatim>\<open>=\<close>), then \<^verbatim>\<open>="\<close>, then the greedy \<^verbatim>\<open>[^"]+\<close>
  takes the longest run without a quote, and a closing quote must follow. The result is
  the two capture groups and the text after the match.
\<close>

definition match_at :: "string \<Rightarrow> (string \<times> string \<times> string) option" where
  "match_at s =
     (let key = takeWhile is_word s; r = dropWhile is_word s
      in if key = [] then None
         else (case r of
                 a # b # r2 \<Rightarrow>
                   if a = CHR ''='' \<and> b = CHR 0x22 then
                     (let val = takeWhile not_quote r2; r3 = dropWhile not_quote r2
                      in if val = [] then None
                         else (case r3 of [] \<Rightarrow> None | q # r4 \<Rightarrow> Some (key, val, r4)))
                   else None
               | _ \<Rightarrow> None))"

lemma match_at_shorter: "match_at s = Some (k, v, r) \<Longrightarrow> length r < length s"
proof -
  assume m: "match_at s = Some (k, v, r)"
  have d: "length (dropWhile P xs) \<le> length xs" for P and xs :: string
    by (rule length_dropWhile_le)
  from m obtain a b r2 q where
    r2: "dropWhile is_word s = a # b # r2" and r4: "dropWhile not_quote r2 = q # r"
    by (auto simp: match_at_def Let_def split: if_splits list.splits)
  have "length r < length (dropWhile not_quote r2)" using r4 by simp
  also have "\<dots> \<le> length r2" by (rule d)
  also have "\<dots> < length (dropWhile is_word s)" using r2 by simp
  also have "\<dots> \<le> length s" by (rule d)
  finally show ?thesis .
qed

text \<open>
  The global scan (\<^verbatim>\<open>header.matchAll(regex)\<close>, and the \<^verbatim>\<open>regex.exec\<close> loop of the
  other two copies): the leftmost match is taken, the scan resumes right after it, and a
  position without a match is skipped.
\<close>

function matchAll :: "string \<Rightarrow> (string \<times> string) list" where
  "matchAll [] = []"
| "matchAll (c # cs) =
     (case match_at (c # cs) of
        Some (k, v, r) \<Rightarrow> (k, v) # matchAll r
      | None \<Rightarrow> matchAll cs)"
  by pat_completeness auto
termination
  by (relation "measure length") (auto dest: match_at_shorter)

text \<open>
  \<^verbatim>\<open>params[match[1]] = match[2]\<close> on the object literal \<^verbatim>\<open>{}\<close>: a later
  assignment to a key replaces the earlier one. Assigning a string to the key
  \<^verbatim>\<open>__proto__\<close> of an ordinary object stores nothing.
\<close>

definition params_set :: "(string \<rightharpoonup> string) \<Rightarrow> string \<times> string \<Rightarrow> (string \<rightharpoonup> string)" where
  "params_set m kv = (if fst kv = ''__proto__'' then m else m(fst kv \<mapsto> snd kv))"

definition params_of :: "string \<Rightarrow> (string \<rightharpoonup> string)" where
  "params_of header = foldl params_set Map.empty (matchAll header)"

text \<open>
  A property read of \<^verbatim>\<open>params\<close> used as a condition (\<^verbatim>\<open>!params.realm\<close>,
  \<^verbatim>\<open>params.chain_id ? ... : ...\<close>, \<^verbatim>\<open>params.signing_scheme || ...\<close>) is true exactly
  for a stored, non-empty string.
\<close>

definition truthy_str :: "string option \<Rightarrow> bool" where
  "truthy_str x = (case x of None \<Rightarrow> False | Some s \<Rightarrow> s \<noteq> [])"

text \<open>
  JavaScript numbers as far as this program reads them: \<^verbatim>\<open>NaN\<close> or an integer
  (\<^verbatim>\<open>-0\<close> is not told apart from \<^verbatim>\<open>0\<close>; both are falsy). Fractions and the
  infinities are not values of this type: \<^verbatim>\<open>parseInt\<close> yields a fraction for no
  string, and what is stated about a caller's \<^verbatim>\<open>chainId\<close> is stated for integers and
  \<^verbatim>\<open>NaN\<close>.
\<close>

datatype number = NaN | Num int

definition truthy_num :: "number \<Rightarrow> bool" where
  "truthy_num n = (case n of NaN \<Rightarrow> False | Num i \<Rightarrow> i \<noteq> 0)"

definition is_space :: "char \<Rightarrow> bool" where
  "is_space c = ((of_char c :: nat) \<in> {9, 10, 11, 12, 13, 32, 160})"

definition is_digit :: "char \<Rightarrow> bool" where
  "is_digit c = (48 \<le> (of_char c :: nat) \<and> (of_char c :: nat) \<le> 57)"

definition digits_value :: "string \<Rightarrow> int" where
  "digits_value ds = foldl (\<lambda>a c. 10 * a + (int (of_char c) - 48)) 0 ds"

text \<open>
  \<^verbatim>\<open>parseInt(s, 10)\<close>: leading white space is dropped (among 8-bit characters: tab,
  line feed, vertical tab, form feed, carriage return, space, no-break space), one sign
  is read, the longest run of decimal digits is the value, and no digit at all gives
  \<^verbatim>\<open>NaN\<close>. The value is kept exact, where JavaScript rounds a long digit string to
  the nearest double and yields \<^verbatim>\<open>Infinity\<close> beyond the largest one. The rounding
  turns no value other than zero into zero and zero into nothing else, so which values
  are falsy is the same; nothing stated below depends on the digits of a value that
  JavaScript would round.
\<close>

definition parseInt :: "string \<Rightarrow> number" where
  "parseInt s =
     (let t = dropWhile is_space s;
          neg = (case t of [] \<Rightarrow> False | c # _ \<Rightarrow> c = CHR ''-'');
          u = (case t of [] \<Rightarrow> [] | c # cs \<Rightarrow> if c = CHR ''+'' \<or> c = CHR ''-'' then cs else t);
          z = takeWhile is_digit u
      in if z = [] then NaN
         else Num (if neg then - digits_value z else digits_value z))"

record OAuthChallenge =
  realm :: string
  scope :: string
  tokenUri :: string
  chainId :: number
  signingScheme :: string

definition parseWWWAuthenticateChallenge :: "string \<Rightarrow> OAuthChallenge option" where
  "parseWWWAuthenticateChallenge header =
     (let params = params_of header
      in if \<not> truthy_str (params ''realm'') \<or> \<not> truthy_str (params ''scope'')
            \<or> \<not> truthy_str (params ''token_uri'')
         then None
         else Some \<lparr>
           realm = the (params ''realm''),
           scope = the (params ''scope''),
           tokenUri = the (params ''token_uri''),
           chainId = (if truthy_str (params ''chain_id'')
                      then parseInt (the (params ''chain_id'')) else Num 1),
           signingScheme = (if truthy_str (params ''signing_scheme'')
                            then the (params ''signing_scheme'') else ''eip4361'') \<rparr>)"

section \<open>The nonce endpoint\<close>

text \<open>
  \<^verbatim>\<open>s.replace(pat, rep)\<close> with a string pattern replaces the first occurrence of
  \<^verbatim>\<open>pat\<close> only and leaves a string without one as it is. (The replacement strings of
  this program, \<^verbatim>\<open>"/nonce"\<close> and \<^verbatim>\<open>""\<close>, hold no \<^verbatim>\<open>$\<close> pattern.)
\<close>

fun replace_first :: "string \<Rightarrow> string \<Rightarrow> string \<Rightarrow> string" where
  "replace_first pat rep [] = (if pat = [] then rep else [])"
| "replace_first pat rep (c # cs) =
     (if prefix pat (c # cs) then rep @ drop (length pat) (c # cs)
      else c # replace_first pat rep cs)"

text \<open>
  The local \<^verbatim>\<open>nonceUrl\<close> of \<^verbatim>\<open>fetchNonce\<close>. The package (both copies) has
  \<^verbatim>\<open>tokenUri.replace("/token", "/nonce")\<close>; the application's \<^verbatim>\<open>oauth\<close> module has
  \<^verbatim>\<open>`${tokenUri.replace("/token", "")}/nonce`\<close>.
\<close>

definition nonceUrl :: "string \<Rightarrow> string" where
  "nonceUrl tokenUri' = replace_first ''/token'' ''/nonce'' tokenUri'"

definition nonceUrl_oauth :: "string \<Rightarrow> string" where
  "nonceUrl_oauth tokenUri' =
     (let baseUrl = replace_first ''/token'' [] tokenUri' in baseUrl @ ''/nonce'')"

section \<open>JSON values and errors\<close>

text \<open>
  What \<^verbatim>\<open>response.json()\<close> can resolve to. A property read yields a JSON value or
  \<^verbatim>\<open>undefined\<close>, written \<open>None\<close>. Numbers are kept to the integers. An object is
  the list of its members, each key once. Strings hold 8-bit characters only, so every
  string of the model can be a header value as far as its character range goes.
\<close>

datatype json = JNull | JBool bool | JNum int | JStr string | JArr "json list"
  | JObj "(string \<times> json) list"

text \<open>
  Everything the flow can fail with: \<^verbatim>\<open>new Error(msg)\<close> thrown by this program, the
  run-time \<^verbatim>\<open>TypeError\<close> of a property read on \<^verbatim>\<open>null\<close> or of \<^verbatim>\<open>new URL\<close> on
  a string that is no absolute URL, the \<^verbatim>\<open>SyntaxError\<close> of \<^verbatim>\<open>response.json()\<close> on a
  body that is not JSON, and a rejection raised by a collaborator (the transport, the
  signer, the message library, the caller's callback).
\<close>

datatype error = Error string | TypeError | SyntaxError | Rejected string

text \<open>
  \<^verbatim>\<open>v.name\<close> for a value that came out of JSON and a name that no string, number,
  boolean or array has as a property of its own (\<^verbatim>\<open>nonce\<close>, \<^verbatim>\<open>error\<close>,
  \<^verbatim>\<open>access_token\<close>, \<^verbatim>\<open>scope\<close>).
\<close>

fun js_get :: "json \<Rightarrow> string \<Rightarrow> error + json option" where
  "js_get JNull name = Inl TypeError"
| "js_get (JObj kvs) name = Inr (map_of kvs name)"
| "js_get v name = Inr None"

fun truthy :: "json option \<Rightarrow> bool" where
  "truthy None = False"
| "truthy (Some JNull) = False"
| "truthy (Some (JBool b)) = b"
| "truthy (Some (JNum i)) = (i \<noteq> 0)"
| "truthy (Some (JStr s)) = (s \<noteq> [])"
| "truthy (Some (JArr xs)) = True"
| "truthy (Some (JObj kvs)) = True"

fun string_of_nat :: "nat \<Rightarrow> string" where
  "string_of_nat n =
     (if n < 10 then [char_of (48 + n)]
      else string_of_nat (n div 10) @ [char_of (48 + n mod 10)])"

declare string_of_nat.simps [simp del]

definition string_of_int :: "int \<Rightarrow> string" where
  "string_of_int i = (if i < 0 then CHR ''-'' # string_of_nat (nat (- i)) else string_of_nat (nat i))"

fun join_with :: "string \<Rightarrow> string list \<Rightarrow> string" where
  "join_with sep [] = []"
| "join_with sep [x] = x"
| "join_with sep (x # y # ys) = x @ sep @ join_with sep (y # ys)"

text \<open>
  The string a template literal \<^verbatim>\<open>`${v}`\<close> or \<^verbatim>\<open>new Error(v)\<close> makes of a value.
  A number is printed in decimal digits, as JavaScript prints an integer of absolute
  value below \<open>10\<^sup>2\<^sup>1\<close>; for a larger one JavaScript prints an exponent form, which
  is not modelled (see \<open>plain_value\<close> below).
\<close>

fun js_string :: "json \<Rightarrow> string" where
  "js_string JNull = ''null''"
| "js_string (JBool b) = (if b then ''true'' else ''false'')"
| "js_string (JNum i) = string_of_int i"
| "js_string (JStr s) = s"
| "js_string (JArr xs) = join_with '','' (map (\<lambda>x. if x = JNull then [] else js_string x) xs)"
| "js_string (JObj kvs) = ''[object Object]''"

definition to_str :: "json option \<Rightarrow> string" where
  "to_str v = (case v of None \<Rightarrow> ''undefined'' | Some j \<Rightarrow> js_string j)"

text \<open>\<^verbatim>\<open>s.split(" ")\<close>: every single space separates; nothing is trimmed or merged.\<close>

fun split_on :: "char \<Rightarrow> string \<Rightarrow> string list" where
  "split_on d [] = [[]]"
| "split_on d (c # cs) =
     (if c = d then [] # split_on d cs
      else (case split_on d cs of [] \<Rightarrow> [[c]] | p # ps \<Rightarrow> (c # p) # ps))"

section \<open>Requests, responses and the observable calls\<close>

text \<open>
  A \<^verbatim>\<open>Response\<close> as far as the flow reads it: the status, what
  \<^verbatim>\<open>headers.get("WWW-Authenticate")\<close> returns (\<open>None\<close> for \<^verbatim>\<open>null\<close>) and what
  \<^verbatim>\<open>json()\<close> resolves to (\<open>None\<close> when it rejects). The record is extensible, so a
  response may carry anything else.
\<close>

record response =
  status :: nat
  www_authenticate :: "string option"
  body :: "json option"

definition ok :: "'a response_scheme \<Rightarrow> bool" where
  "ok r = (200 \<le> status r \<and> status r \<le> 299)"

definition read_json :: "'a response_scheme \<Rightarrow> error + json" where
  "read_json r = (case body r of None \<Rightarrow> Inl SyntaxError | Some j \<Rightarrow> Inr j)"

text \<open>
  A \<^verbatim>\<open>Headers\<close> object maps lower-case header names to values.
  \<^verbatim>\<open>headers.set("Authorization", v)\<close> first strips leading and trailing HTTP white
  space (tab, line feed, carriage return, space) from \<^verbatim>\<open>v\<close>, then throws a
  \<^verbatim>\<open>TypeError\<close> when what is left holds a NUL, a line feed or a carriage return, and
  otherwise replaces the value of that name. The headers of a plain object given to
  \<^verbatim>\<open>fetch\<close> go through the same steps, and \<^verbatim>\<open>fetch\<close> rejects with that
  \<^verbatim>\<open>TypeError\<close> before anything is sent.
\<close>

type_synonym headers = "string \<rightharpoonup> string"

definition is_http_space :: "char \<Rightarrow> bool" where
  "is_http_space c = ((of_char c :: nat) \<in> {9, 10, 13, 32})"

definition normalize_value :: "string \<Rightarrow> string" where
  "normalize_value v = rev (dropWhile is_http_space (rev (dropWhile is_http_space v)))"

definition refused_value :: "string \<Rightarrow> bool" where
  "refused_value v = list_ex (\<lambda>c. (of_char c :: nat) \<in> {0, 10, 13}) v"

definition set_authorization :: "string \<Rightarrow> headers \<Rightarrow> error + headers" where
  "set_authorization v hs =
     (let n = normalize_value v
      in if refused_value n then Inl TypeError else Inr (hs(''authorization'' \<mapsto> n)))"

text \<open>
  \<^verbatim>\<open>input: RequestInfo | URL\<close> and the program's
  \<^verbatim>\<open>typeof input === "string" ? input : input.toString()\<close>.
\<close>

datatype request_info = UrlString string | UrlObject string | RequestObject string

fun url_of :: "request_info \<Rightarrow> string" where
  "url_of (UrlString s) = s"
| "url_of (UrlObject href) = href"
| "url_of (RequestObject u) = ''[object Request]''"

record exchange_body =
  grant_type :: string
  message :: string
  signature :: string
  body_scope :: string

text \<open>
  The three shapes of \<^verbatim>\<open>fetch\<close> call in the program: the resource request
  \<^verbatim>\<open>fetch(input, {...init, headers})\<close> (\<open>'i\<close> stands for the rest of the caller's
  \<^verbatim>\<open>RequestInit\<close>), the nonce request \<^verbatim>\<open>fetch(nonceUrl)\<close>, and the token exchange, a
  \<^verbatim>\<open>POST\<close> of a JSON body with \<^verbatim>\<open>Content-Type: application/json\<close>.
\<close>

datatype 'i request =
    Resource request_info "'i option" headers
  | Get string
  | PostJson string exchange_body

record siwe_args =
  siwe_address :: string
  siwe_chainId :: number
  domain :: string
  nonce :: "json option"
  uri :: string
  version :: string
  statement :: string
  resources :: "string list"

text \<open>Every call that leaves the flow, or enters the parser, with how it came back.\<close>

datatype 'i event =
    HttpCall "'i request" "error + response"
  | ParseCall string
  | SiweCall siwe_args "error + string"
  | SignCall string "error + string"
  | TokenCall "json option" "json option" "error + unit"

text \<open>
  The collaborators. \<open>'w\<close> is the state of the world they act on: \<^verbatim>\<open>fetch\<close>,
  viem's \<^verbatim>\<open>createSiweMessage\<close> (it reads the clock and validates its arguments) and
  \<^verbatim>\<open>new URL(uri).host\<close> (\<open>None\<close> when the constructor throws).
\<close>

record ('w, 'i) env =
  fetch :: "'i request \<Rightarrow> 'w \<Rightarrow> (error + response) \<times> 'w"
  createSiweMessage :: "siwe_args \<Rightarrow> 'w \<Rightarrow> (error + string) \<times> 'w"
  url_host :: "string \<Rightarrow> string option"

text \<open>
  An asynchronous computation: from a state it fails or returns a value, and leaves the
  calls it made, in order, and the new state.
\<close>

type_synonym ('s, 'i, 'a) prog = "'s \<Rightarrow> (error + 'a) \<times> 'i event list \<times> 's"

definition ret :: "'a \<Rightarrow> ('s, 'i, 'a) prog" where
  "ret x s = (Inr x, [], s)"

definition throw :: "error \<Rightarrow> ('s, 'i, 'a) prog" where
  "throw e s = (Inl e, [], s)"

definition lift_result :: "error + 'a \<Rightarrow> ('s, 'i, 'a) prog" where
  "lift_result r s = (r, [], s)"

definition await :: "('s, 'i, 'a) prog \<Rightarrow> ('a \<Rightarrow> ('s, 'i, 'b) prog) \<Rightarrow> ('s, 'i, 'b) prog" where
  "await m f s =
     (case m s of
        (Inl e, evs, s1) \<Rightarrow> (Inl e, evs, s1)
      | (Inr x, evs, s1) \<Rightarrow> (case f x s1 of (r, evs2, s2) \<Rightarrow> (r, evs @ evs2, s2)))"

definition call_fetch :: "('w, 'i) env \<Rightarrow> 'i request \<Rightarrow> ('w, 'i, response) prog" where
  "call_fetch e req w = (case fetch e req w of (r, w1) \<Rightarrow> (r, [HttpCall req r], w1))"

definition call_createSiweMessage :: "('w, 'i) env \<Rightarrow> siwe_args \<Rightarrow> ('w, 'i, string) prog" where
  "call_createSiweMessage e args w =
     (case createSiweMessage e args w of (r, w1) \<Rightarrow> (r, [SiweCall args r], w1))"

definition call_signMessage ::
  "(string \<Rightarrow> 'w \<Rightarrow> (error + string) \<times> 'w) \<Rightarrow> string \<Rightarrow> ('w, 'i, string) prog" where
  "call_signMessage sign msg w = (case sign msg w of (r, w1) \<Rightarrow> (r, [SignCall msg r], w1))"

definition call_onToken ::
  "(json option \<Rightarrow> json option \<Rightarrow> 'w \<Rightarrow> (error + unit) \<times> 'w) \<Rightarrow> json option \<Rightarrow> json option
     \<Rightarrow> ('w, 'i, unit) prog" where
  "call_onToken cb a b w = (case cb a b w of (r, w1) \<Rightarrow> (r, [TokenCall a b r], w1))"

definition call_parse :: "string \<Rightarrow> ('s, 'i, OAuthChallenge option) prog" where
  "call_parse header s = (Inr (parseWWWAuthenticateChallenge header), [ParseCall header], s)"

section \<open>The nonce client, the message builder and the token exchange\<close>

text \<open>\<^verbatim>\<open>fetchNonce\<close> of the package (both copies in the package file are the same).\<close>

definition fetchNonce :: "('w, 'i) env \<Rightarrow> string \<Rightarrow> ('w, 'i, json option) prog" where
  "fetchNonce e tokenUri' =
     await (call_fetch e (Get (nonceUrl tokenUri'))) (\<lambda>response.
       if \<not> ok response
       then throw (Error (''Failed to fetch nonce: '' @ string_of_nat (status response)))
       else await (lift_result (read_json response)) (\<lambda>data.
            lift_result (js_get data ''nonce'')))"

text \<open>\<^verbatim>\<open>fetchNonce\<close> of the application's \<^verbatim>\<open>oauth\<close> module.\<close>

definition fetchNonce_oauth :: "('w, 'i) env \<Rightarrow> string \<Rightarrow> ('w, 'i, json option) prog" where
  "fetchNonce_oauth e tokenUri' =
     await (call_fetch e (Get (nonceUrl_oauth tokenUri'))) (\<lambda>response.
       if \<not> ok response
       then throw (Error (''Failed to fetch nonce: '' @ string_of_nat (status response)))
       else await (lift_result (read_json response)) (\<lambda>data.
            lift_result (js_get data ''nonce'')))"

text \<open>
  \<^verbatim>\<open>buildSiweMessage\<close> of the package: the chain id is a parameter. The message
  itself is made by \<^verbatim>\<open>createSiweMessage\<close>.
\<close>

definition buildSiweMessage ::
  "('w, 'i) env \<Rightarrow> string \<Rightarrow> json option \<Rightarrow> string list \<Rightarrow> string \<Rightarrow> number
     \<Rightarrow> ('w, 'i, string) prog" where
  "buildSiweMessage e address' nonce' scopes uri' chainId' =
     (case url_host e uri' of
        None \<Rightarrow> throw TypeError
      | Some domain' \<Rightarrow>
          (let resources' = map (\<lambda>scope'. ''urn:oauth:scope:'' @ scope') scopes
           in call_createSiweMessage e \<lparr>
                siwe_address = address',
                siwe_chainId = chainId',
                domain = domain',
                nonce = nonce',
                uri = uri',
                version = ''1'',
                statement = ''Authorize access to your private data.'',
                resources = resources' \<rparr>))"

text \<open>
  \<^verbatim>\<open>buildSiweMessage\<close> of the \<^verbatim>\<open>oauth\<close> module: the chain id is the module constant
  \<^verbatim>\<open>CHAIN_ID = 1\<close>.
\<close>

definition CHAIN_ID :: number where
  "CHAIN_ID = Num 1"

definition buildSiweMessage_oauth ::
  "('w, 'i) env \<Rightarrow> string \<Rightarrow> json option \<Rightarrow> string list \<Rightarrow> string \<Rightarrow> ('w, 'i, string) prog" where
  "buildSiweMessage_oauth e address' nonce' scopes uri' =
     (case url_host e uri' of
        None \<Rightarrow> throw TypeError
      | Some domain' \<Rightarrow>
          (let resources' = map (\<lambda>scope'. ''urn:oauth:scope:'' @ scope') scopes
           in call_createSiweMessage e \<lparr>
                siwe_address = address',
                siwe_chainId = CHAIN_ID,
                domain = domain',
                nonce = nonce',
                uri = uri',
                version = ''1'',
                statement = ''Authorize access to your private data.'',
                resources = resources' \<rparr>))"

text \<open>
  \<^verbatim>\<open>exchangeToken\<close> of the package: on a status that is not successful the error body is
  read with \<^verbatim>\<open>response.json().catch(() => ({}))\<close>.
\<close>

definition exchangeToken ::
  "('w, 'i) env \<Rightarrow> string \<Rightarrow> string \<Rightarrow> string \<Rightarrow> string \<Rightarrow> ('w, 'i, json) prog" where
  "exchangeToken e tokenUri' message' signature' scope' =
     await (call_fetch e (PostJson tokenUri' \<lparr>
              grant_type = ''eth_signature'',
              message = message',
              signature = signature',
              body_scope = scope' \<rparr>)) (\<lambda>response.
       if \<not> ok response
       then (let error' = (case body response of None \<Rightarrow> JObj [] | Some j \<Rightarrow> j)
             in await (lift_result (js_get error' ''error'')) (\<lambda>msg.
                throw (Error (if truthy msg then to_str msg
                              else ''Token exchange failed: '' @ string_of_nat (status response)))))
       else lift_result (read_json response))"

text \<open>\<^verbatim>\<open>exchangeToken\<close> of the \<^verbatim>\<open>oauth\<close> module: the error body is read without a catch.\<close>

definition exchangeToken_oauth ::
  "('w, 'i) env \<Rightarrow> string \<Rightarrow> string \<Rightarrow> string \<Rightarrow> string \<Rightarrow> ('w, 'i, json) prog" where
  "exchangeToken_oauth e tokenUri' message' signature' scope' =
     await (call_fetch e (PostJson tokenUri' \<lparr>
              grant_type = ''eth_signature'',
              message = message',
              signature = signature',
              body_scope = scope' \<rparr>)) (\<lambda>response.
       if \<not> ok response
       then await (lift_result (read_json response)) (\<lambda>error'.
            await (lift_result (js_get error' ''error'')) (\<lambda>msg.
              throw (Error (if truthy msg then to_str msg
                            else ''Token exchange failed: '' @ string_of_nat (status response)))))
       else lift_result (read_json response))"

section \<open>The orchestrators\<close>

record 'w AuthFetchOptions =
  address :: string
  signMessage :: "string \<Rightarrow> 'w \<Rightarrow> (error + string) \<times> 'w"
  chainId_option :: "number option"
  token :: "string option"
  onToken :: "(json option \<Rightarrow> json option \<Rightarrow> 'w \<Rightarrow> (error + unit) \<times> 'w) option"

text \<open>
  The caller's \<^verbatim>\<open>RequestInit\<close>: its headers, as \<^verbatim>\<open>new Headers(init.headers)\<close> reads
  them, and everything else.
\<close>

record 'i RequestInit =
  init_headers :: headers
  other :: 'i

text \<open>
  \<^verbatim>\<open>onToken?.(tokenResponse.access_token, tokenResponse.scope)\<close>: without a callback
  nothing is evaluated.
\<close>

definition notify_onToken ::
  "(json option \<Rightarrow> json option \<Rightarrow> 'w \<Rightarrow> (error + unit) \<times> 'w) option \<Rightarrow> json
     \<Rightarrow> ('w, 'i, unit) prog" where
  "notify_onToken cb tokenResponse =
     (case cb of
        None \<Rightarrow> ret ()
      | Some f \<Rightarrow>
          await (lift_result (js_get tokenResponse ''access_token'')) (\<lambda>a.
          await (lift_result (js_get tokenResponse ''scope'')) (\<lambda>b.
          call_onToken f a b)))"

text \<open>\<^verbatim>\<open>authFetch(input, init)\<close> of the package, first copy: no state between calls.\<close>

definition authFetch ::
  "('w, 'i) env \<Rightarrow> request_info \<Rightarrow> 'w AuthFetchOptions \<Rightarrow> 'i RequestInit
     \<Rightarrow> ('w, 'i, response) prog" where
  "authFetch e input options fetchInit =
     (let chainId' = (case chainId_option options of None \<Rightarrow> Num 1 | Some n \<Rightarrow> n);
          url = url_of input;
          headers' = (if truthy_str (token options)
                      then set_authorization (''Bearer '' @ the (token options)) (init_headers fetchInit)
                      else Inr (init_headers fetchInit))
      in await (lift_result headers') (\<lambda>hs.
         await (call_fetch e (Resource input (Some (other fetchInit)) hs)) (\<lambda>response.
         if status response = 401 then
           (case www_authenticate response of
              None \<Rightarrow> ret response
            | Some wwwAuthenticate \<Rightarrow>
                if wwwAuthenticate = [] then ret response
                else await (call_parse wwwAuthenticate) (\<lambda>challenge.
                  case challenge of
                    None \<Rightarrow> ret response
                  | Some c \<Rightarrow>
                      if signingScheme c \<noteq> ''eip4361''
                      then throw (Error (''Unsupported signing scheme: '' @ signingScheme c))
                      else
                        await (fetchNonce e (tokenUri c)) (\<lambda>nonce'.
                        await (buildSiweMessage e (address options) nonce'
                                 (split_on CHR '' '' (scope c)) url
                                 (if truthy_num (chainId c) then chainId c else chainId'))
                          (\<lambda>siweMessage.
                        await (call_signMessage (signMessage options) siweMessage) (\<lambda>signature'.
                        await (exchangeToken e (tokenUri c) siweMessage signature' (scope c))
                          (\<lambda>tokenResponse.
                        await (notify_onToken (onToken options) tokenResponse) (\<lambda>_.
                        await (lift_result (js_get tokenResponse ''access_token'')) (\<lambda>access_token.
                        await (lift_result (set_authorization (''Bearer '' @ to_str access_token)
                                 (init_headers fetchInit))) (\<lambda>retryHeaders.
                        call_fetch e (Resource input (Some (other fetchInit)) retryHeaders))))))))))
         else ret response)))"

text \<open>
  \<^verbatim>\<open>createAuthFetch(options)\<close> of the second copy returns a closure over the variable
  \<^verbatim>\<open>currentToken\<close>. The closure runs on the pair of that variable and the world.
\<close>

definition in_world :: "('w, 'i, 'a) prog \<Rightarrow> (json option \<times> 'w, 'i, 'a) prog" where
  "in_world m s = (case m (snd s) of (r, evs, w1) \<Rightarrow> (r, evs, (fst s, w1)))"

definition get_currentToken :: "(json option \<times> 'w, 'i, json option) prog" where
  "get_currentToken s = (Inr (fst s), [], s)"

definition set_currentToken :: "json option \<Rightarrow> (json option \<times> 'w, 'i, unit) prog" where
  "set_currentToken v s = (Inr (), [], (v, snd s))"

definition createAuthFetch :: "'w AuthFetchOptions \<Rightarrow> json option" where
  "createAuthFetch options = map_option JStr (token options)"

definition bound_authFetch ::
  "('w, 'i) env \<Rightarrow> 'w AuthFetchOptions \<Rightarrow> request_info \<Rightarrow> 'i RequestInit option
     \<Rightarrow> (json option \<times> 'w, 'i, response) prog" where
  "bound_authFetch e options input init =
     (let chainId' = (case chainId_option options of None \<Rightarrow> Num 1 | Some n \<Rightarrow> n);
          url = url_of input;
          init_hs = (case init of None \<Rightarrow> Map.empty | Some i \<Rightarrow> init_headers i);
          rest = map_option other init
      in await get_currentToken (\<lambda>currentToken.
         await (lift_result (if truthy currentToken
                             then set_authorization (''Bearer '' @ to_str currentToken) init_hs
                             else Inr init_hs)) (\<lambda>hs.
         await (in_world (call_fetch e (Resource input rest hs))) (\<lambda>response.
         if status response = 401 then
           (case www_authenticate response of
              None \<Rightarrow> ret response
            | Some wwwAuthenticate \<Rightarrow>
                if wwwAuthenticate = [] then ret response
                else await (call_parse wwwAuthenticate) (\<lambda>challenge.
                  case challenge of
                    None \<Rightarrow> ret response
                  | Some c \<Rightarrow>
                      if signingScheme c \<noteq> ''eip4361''
                      then throw (Error (''Unsupported signing scheme: '' @ signingScheme c))
                      else
                        await (in_world (fetchNonce e (tokenUri c))) (\<lambda>nonce'.
                        await (in_world (buildSiweMessage e (address options) nonce'
                                 (split_on CHR '' '' (scope c)) url
                                 (if truthy_num (chainId c) then chainId c else chainId')))
                          (\<lambda>siweMessage.
                        await (in_world (call_signMessage (signMessage options) siweMessage))
                          (\<lambda>signature'.
                        await (in_world (exchangeToken e (tokenUri c) siweMessage signature' (scope c)))
                          (\<lambda>tokenResponse.
                        await (lift_result (js_get tokenResponse ''access_token'')) (\<lambda>access_token.
                        await (set_currentToken access_token) (\<lambda>_.
                        await (in_world (notify_onToken (onToken options) tokenResponse)) (\<lambda>_.
                        await get_currentToken (\<lambda>currentToken'.
                        await (lift_result (set_authorization (''Bearer '' @ to_str currentToken')
                                 init_hs)) (\<lambda>retryHeaders.
                        in_world (call_fetch e (Resource input rest retryHeaders)))))))))))))
         else ret response))))"

text \<open>
  \<^verbatim>\<open>authFetch(input, init)\<close> of the second copy: one call of a freshly created closure.
\<close>

definition authFetch_oneshot ::
  "('w, 'i) env \<Rightarrow> request_info \<Rightarrow> 'w AuthFetchOptions \<Rightarrow> 'i RequestInit
     \<Rightarrow> ('w, 'i, response) prog" where
  "authFetch_oneshot e input options fetchInit w =
     (case bound_authFetch e options input (Some fetchInit) (createAuthFetch options, w) of
        (r, evs, s1) \<Rightarrow> (r, evs, snd s1))"

text \<open>\<^verbatim>\<open>fetchWithOAuth\<close> of the \<^verbatim>\<open>oauth\<close> module returns \<^verbatim>\<open>{ data, token }\<close>.\<close>

record oauth_result =
  data :: json
  token_out :: "json option"

definition fetchWithOAuth ::
  "('w, 'i) env \<Rightarrow> string \<Rightarrow> (string \<Rightarrow> 'w \<Rightarrow> (error + string) \<times> 'w) \<Rightarrow> string \<Rightarrow> string option
     \<Rightarrow> ('w, 'i, oauth_result) prog" where
  "fetchWithOAuth e url sign address' existingToken =
     (let headers' = (if truthy_str existingToken
                      then set_authorization (''Bearer '' @ the existingToken) Map.empty
                      else Inr Map.empty)
      in await (lift_result headers') (\<lambda>hs.
         await (call_fetch e (Resource (UrlString url) None hs)) (\<lambda>response.
         if status response = 401 then
           (case www_authenticate response of
              None \<Rightarrow> throw (Error ''Missing WWW-Authenticate header in 401 response'')
            | Some wwwAuthenticate \<Rightarrow>
                if wwwAuthenticate = []
                then throw (Error ''Missing WWW-Authenticate header in 401 response'')
                else await (call_parse wwwAuthenticate) (\<lambda>challenge.
                  case challenge of
                    None \<Rightarrow> throw (Error ''Failed to parse WWW-Authenticate challenge'')
                  | Some c \<Rightarrow>
                      if signingScheme c \<noteq> ''eip4361''
                      then throw (Error (''Unsupported signing scheme: '' @ signingScheme c))
                      else
                        await (fetchNonce_oauth e (tokenUri c)) (\<lambda>nonce'.
                        await (buildSiweMessage_oauth e address' nonce'
                                 (split_on CHR '' '' (scope c)) url) (\<lambda>siweMessage.
                        await (call_signMessage sign siweMessage) (\<lambda>signature'.
                        await (exchangeToken_oauth e (tokenUri c) siweMessage signature' (scope c))
                          (\<lambda>tokenResponse.
                        await (lift_result (js_get tokenResponse ''access_token'')) (\<lambda>access_token.
                        await (lift_result (set_authorization (''Bearer '' @ to_str access_token)
                                 Map.empty)) (\<lambda>retryHeaders.
                        await (call_fetch e (Resource (UrlString url) None retryHeaders))
                          (\<lambda>response2.
                        if \<not> ok response2
                        then throw (Error (''Request failed after auth: ''
                                      @ string_of_nat (status response2)))
                        else await (lift_result (read_json response2)) (\<lambda>data'.
                             ret \<lparr> data = data', token_out = access_token \<rparr>))))))))))
         else if \<not> ok response
         then throw (Error (''Request failed: '' @ string_of_nat (status response)))
         else await (lift_result (read_json response)) (\<lambda>data'.
              ret \<lparr> data = data',
                    token_out = Some (JStr (if truthy_str existingToken
                                            then the existingToken else [])) \<rparr>))))"

section \<open>Notions used to state the properties\<close>

text \<open>The three parts of a run: how it ended, the calls it made, the state it left.\<close>

definition result_of :: "(error + 'a) \<times> 'i event list \<times> 's \<Rightarrow> error + 'a" where
  "result_of run = fst run"

definition events_of :: "(error + 'a) \<times> 'i event list \<times> 's \<Rightarrow> 'i event list" where
  "events_of run = fst (snd run)"

definition state_of :: "(error + 'a) \<times> 'i event list \<times> 's \<Rightarrow> 's" where
  "state_of run = snd (snd run)"

text \<open>A key is present in a header when the scan finds it as the key of a pair.\<close>

definition key_present :: "string \<Rightarrow> string \<Rightarrow> bool" where
  "key_present k header = (k \<in> set (map fst (matchAll header)))"

text \<open>The value of the last pair with a given key, in the order of the header.\<close>

definition last_value :: "string \<Rightarrow> (string \<times> string) list \<Rightarrow> string option" where
  "last_value k ms =
     (let vs = map snd (filter (\<lambda>kv. fst kv = k) ms)
      in if vs = [] then None else Some (last vs))"

text \<open>
  \<open>pat\<close> occurs in \<open>s\<close> between \<open>pre\<close> and \<open>post\<close>, and nowhere further left.
\<close>

definition first_occurrence :: "string \<Rightarrow> string \<Rightarrow> string \<Rightarrow> string \<Rightarrow> bool" where
  "first_occurrence pat s pre post = (s = pre @ pat @ post \<and> \<not> sublist pat (pre @ butlast pat))"

text \<open>
  A 401 response carries no usable challenge when the header is absent or the parser
  yields nothing for it.
\<close>

definition no_challenge :: "response \<Rightarrow> bool" where
  "no_challenge r =
     (case www_authenticate r of None \<Rightarrow> True
      | Some h \<Rightarrow> parseWWWAuthenticateChallenge h = None)"

text \<open>The parser calls made for a response: one for a header that is not empty.\<close>

definition parser_calls :: "response \<Rightarrow> 'i event list" where
  "parser_calls r =
     (case www_authenticate r of None \<Rightarrow> []
      | Some h \<Rightarrow> if h = [] then [] else [ParseCall h])"

definition UnsupportedScheme :: "string \<Rightarrow> error" where
  "UnsupportedScheme scheme = Error (''Unsupported signing scheme: '' @ scheme)"

text \<open>
  The outcome of the token exchange request of a run and the calls made after it, when
  the run got that far.
\<close>

fun after_exchange :: "'i event list \<Rightarrow> ((error + response) \<times> 'i event list) option" where
  "after_exchange [] = None"
| "after_exchange (HttpCall (PostJson u b) out # evs) = Some (out, evs)"
| "after_exchange (ev # evs) = after_exchange evs"

text \<open>A field of a token response, as the flow reads it.\<close>

definition field :: "json \<Rightarrow> string \<Rightarrow> json option" where
  "field j name = (case js_get j name of Inl e \<Rightarrow> None | Inr v \<Rightarrow> v)"

section \<open>The steps after an accepted challenge\<close>

text \<open>
  The part of each orchestrator that runs once the challenge \<open>c\<close> has passed the
  scheme check, from the nonce fetch to the retry. These are names for parts of the
  definitions above (the lemmas \<open>authFetch_unfold\<close>, \<open>bound_authFetch_unfold\<close> and
  \<open>fetchWithOAuth_unfold\<close> say so); the proofs treat them as units.
\<close>

definition authFetch_flow ::
  "('w, 'i) env \<Rightarrow> request_info \<Rightarrow> 'w AuthFetchOptions \<Rightarrow> 'i RequestInit \<Rightarrow> OAuthChallenge
     \<Rightarrow> ('w, 'i, response) prog" where
  "authFetch_flow e input options fetchInit c =
     await (fetchNonce e (tokenUri c)) (\<lambda>nonce'.
     await (buildSiweMessage e (address options) nonce'
              (split_on CHR '' '' (scope c)) (url_of input)
              (if truthy_num (chainId c) then chainId c
               else (case chainId_option options of None \<Rightarrow> Num 1 | Some n \<Rightarrow> n)))
       (\<lambda>siweMessage.
     await (call_signMessage (signMessage options) siweMessage) (\<lambda>signature'.
     await (exchangeToken e (tokenUri c) siweMessage signature' (scope c))
       (\<lambda>tokenResponse.
     await (notify_onToken (onToken options) tokenResponse) (\<lambda>_.
     await (lift_result (js_get tokenResponse ''access_token'')) (\<lambda>access_token.
     await (lift_result (set_authorization (''Bearer '' @ to_str access_token)
              (init_headers fetchInit))) (\<lambda>retryHeaders.
     call_fetch e (Resource input (Some (other fetchInit)) retryHeaders))))))))"

definition bound_authFetch_flow ::
  "('w, 'i) env \<Rightarrow> 'w AuthFetchOptions \<Rightarrow> request_info \<Rightarrow> 'i RequestInit option \<Rightarrow> OAuthChallenge
     \<Rightarrow> (json option \<times> 'w, 'i, response) prog" where
  "bound_authFetch_flow e options input init c =
     await (in_world (fetchNonce e (tokenUri c))) (\<lambda>nonce'.
     await (in_world (buildSiweMessage e (address options) nonce'
              (split_on CHR '' '' (scope c)) (url_of input)
              (if truthy_num (chainId c) then chainId c
               else (case chainId_option options of None \<Rightarrow> Num 1 | Some n \<Rightarrow> n))))
       (\<lambda>siweMessage.
     await (in_world (call_signMessage (signMessage options) siweMessage))
       (\<lambda>signature'.
     await (in_world (exchangeToken e (tokenUri c) siweMessage signature' (scope c)))
       (\<lambda>tokenResponse.
     await (lift_result (js_get tokenResponse ''access_token'')) (\<lambda>access_token.
     await (set_currentToken access_token) (\<lambda>_.
     await (in_world (notify_onToken (onToken options) tokenResponse)) (\<lambda>_.
     await get_currentToken (\<lambda>currentToken'.
     await (lift_result (set_authorization (''Bearer '' @ to_str currentToken')
              (case init of None \<Rightarrow> Map.empty | Some i \<Rightarrow> init_headers i)))
       (\<lambda>retryHeaders.
     in_world (call_fetch e (Resource input (map_option other init) retryHeaders)))))))))))"

definition fetchWithOAuth_flow ::
  "('w, 'i) env \<Rightarrow> string \<Rightarrow> (string \<Rightarrow> 'w \<Rightarrow> (error + string) \<times> 'w) \<Rightarrow> string \<Rightarrow> OAuthChallenge
     \<Rightarrow> ('w, 'i, oauth_result) prog" where
  "fetchWithOAuth_flow e url sign address' c =
     await (fetchNonce_oauth e (tokenUri c)) (\<lambda>nonce'.
     await (buildSiweMessage_oauth e address' nonce'
              (split_on CHR '' '' (scope c)) url) (\<lambda>siweMessage.
     await (call_signMessage sign siweMessage) (\<lambda>signature'.
     await (exchangeToken_oauth e (tokenUri c) siweMessage signature' (scope c))
       (\<lambda>tokenResponse.
     await (lift_result (js_get tokenResponse ''access_token'')) (\<lambda>access_token.
     await (lift_result (set_authorization (''Bearer '' @ to_str access_token) Map.empty))
       (\<lambda>retryHeaders.
     await (call_fetch e (Resource (UrlString url) None retryHeaders))
       (\<lambda>response2.
     if \<not> ok response2
     then throw (Error (''Request failed after auth: ''
                   @ string_of_nat (status response2)))
     else await (lift_result (read_json response2)) (\<lambda>data'.
          ret \<lparr> data = data', token_out = access_token \<rparr>))))))))"

text \<open>The value of \<^verbatim>\<open>challenge.chainId || chainId\<close>.\<close>

definition effective_chainId :: "'w AuthFetchOptions \<Rightarrow> OAuthChallenge \<Rightarrow> number" where
  "effective_chainId options c =
     (if truthy_num (chainId c) then chainId c
      else (case chainId_option options of None \<Rightarrow> Num 1 | Some n \<Rightarrow> n))"

text \<open>
  The last part of each of them, from the token response \<open>tokenResponse\<close> of the
  exchange to the end (the lemmas \<open>authFetch_flow_unfold\<close>,
  \<open>bound_authFetch_flow_unfold\<close> and \<open>fetchWithOAuth_flow_unfold\<close>).
\<close>

definition authFetch_finish ::
  "('w, 'i) env \<Rightarrow> request_info \<Rightarrow> 'w AuthFetchOptions \<Rightarrow> 'i RequestInit \<Rightarrow> json
     \<Rightarrow> ('w, 'i, response) prog" where
  "authFetch_finish e input options fetchInit tokenResponse =
     await (notify_onToken (onToken options) tokenResponse) (\<lambda>_.
     await (lift_result (js_get tokenResponse ''access_token'')) (\<lambda>access_token.
     await (lift_result (set_authorization (''Bearer '' @ to_str access_token)
              (init_headers fetchInit))) (\<lambda>retryHeaders.
     call_fetch e (Resource input (Some (other fetchInit)) retryHeaders))))"

definition bound_authFetch_finish ::
  "('w, 'i) env \<Rightarrow> 'w AuthFetchOptions \<Rightarrow> request_info \<Rightarrow> 'i RequestInit option \<Rightarrow> json
     \<Rightarrow> (json option \<times> 'w, 'i, response) prog" where
  "bound_authFetch_finish e options input init tokenResponse =
     await (lift_result (js_get tokenResponse ''access_token'')) (\<lambda>access_token.
     await (set_currentToken access_token) (\<lambda>_.
     await (in_world (notify_onToken (onToken options) tokenResponse)) (\<lambda>_.
     await get_currentToken (\<lambda>currentToken'.
     await (lift_result (set_authorization (''Bearer '' @ to_str currentToken')
              (case init of None \<Rightarrow> Map.empty | Some i \<Rightarrow> init_headers i)))
       (\<lambda>retryHeaders.
     in_world (call_fetch e (Resource input (map_option other init) retryHeaders)))))))"

definition fetchWithOAuth_finish ::
  "('w, 'i) env \<Rightarrow> string \<Rightarrow> json \<Rightarrow> ('w, 'i, oauth_result) prog" where
  "fetchWithOAuth_finish e url tokenResponse =
     await (lift_result (js_get tokenResponse ''access_token'')) (\<lambda>access_token.
     await (lift_result (set_authorization (''Bearer '' @ to_str access_token) Map.empty))
       (\<lambda>retryHeaders.
     await (call_fetch e (Resource (UrlString url) None retryHeaders))
       (\<lambda>response2.
     if \<not> ok response2
     then throw (Error (''Request failed after auth: ''
                   @ string_of_nat (status response2)))
     else await (lift_result (read_json response2)) (\<lambda>data'.
          ret \<lparr> data = data', token_out = access_token \<rparr>))))"

text \<open>
  The challenge a response makes the orchestrators act on: the status is 401, the parser
  yields a challenge for the header, and its signing scheme is the supported one.
\<close>

definition accepted :: "response \<Rightarrow> OAuthChallenge option" where
  "accepted r =
     (if status r = 401 then
        (case www_authenticate r of
           None \<Rightarrow> None
         | Some h \<Rightarrow>
             (case parseWWWAuthenticateChallenge h of
                None \<Rightarrow> None
              | Some c \<Rightarrow> if signingScheme c = ''eip4361'' then Some c else None))
      else None)"

text \<open>
  The shape of every run: the first request with its outcome, then the parser call of a
  401, then the calls \<open>fl c\<close> made for an accepted challenge \<open>c\<close>.
\<close>

definition gated :: "'i request \<Rightarrow> error + response \<Rightarrow> (OAuthChallenge \<Rightarrow> 'i event list) \<Rightarrow> 'i event list" where
  "gated req x fl =
     HttpCall req x #
       (case x of
          Inl e \<Rightarrow> []
        | Inr r \<Rightarrow>
            (if status r = 401 then parser_calls r else [])
            @ (case accepted r of None \<Rightarrow> [] | Some c \<Rightarrow> fl c))"

text \<open>
  How a call uses the scope of a challenge: the message resources are the scope string
  split at every space, each piece behind \<^verbatim>\<open>urn:oauth:scope:\<close>, in order; the token
  exchange goes to the token URI of the challenge and carries the scope string as it is.
\<close>

fun uses_scope :: "OAuthChallenge \<Rightarrow> 'i event \<Rightarrow> bool" where
  "uses_scope c (SiweCall args out) =
     (resources args = map ((@) ''urn:oauth:scope:'') (split_on CHR '' '' (scope c)))"
| "uses_scope c (HttpCall (PostJson u b) out) = (u = tokenUri c \<and> body_scope b = scope c)"
| "uses_scope c ev = True"

text \<open>A call that builds a message builds it for the chain \<open>n\<close>.\<close>

fun uses_chain :: "number \<Rightarrow> 'i event \<Rightarrow> bool" where
  "uses_chain n (SiweCall args out) = (siwe_chainId args = n)"
| "uses_chain n ev = True"





text \<open>The access token of a token exchange that completed, as the flow reads it.\<close>

definition exchanged_token :: "error + response \<Rightarrow> json option" where
  "exchanged_token out =
     (case out of
        Inl err \<Rightarrow> None
      | Inr x \<Rightarrow> (case body x of None \<Rightarrow> None | Some tr \<Rightarrow> field tr ''access_token''))"

text \<open>The headers of the first request of each orchestrator, when they can be built.\<close>

definition authFetch_headers :: "'w AuthFetchOptions \<Rightarrow> 'i RequestInit \<Rightarrow> error + headers" where
  "authFetch_headers options fetchInit =
     (if truthy_str (token options)
      then set_authorization (''Bearer '' @ the (token options)) (init_headers fetchInit)
      else Inr (init_headers fetchInit))"

definition bound_authFetch_headers :: "'i RequestInit option \<Rightarrow> json option \<Rightarrow> error + headers" where
  "bound_authFetch_headers init currentToken =
     (if truthy currentToken
      then set_authorization (''Bearer '' @ to_str currentToken)
             (case init of None \<Rightarrow> Map.empty | Some i \<Rightarrow> init_headers i)
      else Inr (case init of None \<Rightarrow> Map.empty | Some i \<Rightarrow> init_headers i))"

definition fetchWithOAuth_headers :: "string option \<Rightarrow> error + headers" where
  "fetchWithOAuth_headers existingToken =
     (if truthy_str existingToken
      then set_authorization (''Bearer '' @ the existingToken) Map.empty
      else Inr Map.empty)"

text \<open>
  The arguments of \<^verbatim>\<open>createSiweMessage\<close> for the address \<open>addr\<close>, the chain \<open>n\<close>,
  the request URL \<open>url\<close>, the challenge \<open>c\<close>, the nonce \<open>v\<close> and the host \<open>d\<close> of
  the request URL: the resources are the pieces of \<^verbatim>\<open>c.scope.split(" ")\<close>, in order,
  each behind \<^verbatim>\<open>urn:oauth:scope:\<close>.
\<close>

definition message_args ::
  "string \<Rightarrow> number \<Rightarrow> string \<Rightarrow> OAuthChallenge \<Rightarrow> json option \<Rightarrow> string \<Rightarrow> siwe_args" where
  "message_args addr n url c v d = \<lparr>
     siwe_address = addr, siwe_chainId = n, domain = d, nonce = v, uri = url, version = ''1'',
     statement = ''Authorize access to your private data.'',
     resources = map ((@) ''urn:oauth:scope:'') (split_on CHR '' '' (scope c)) \<rparr>"

text \<open>
  Arguments that are those of \<open>message_args\<close> for the chain \<open>n\<close>; and arguments that
  are those of \<open>message_args\<close> whatever their chain id is. The second is what is stated
  where the chain id may be the one read from the header, whose digits \<open>parseInt\<close>
  keeps exact.
\<close>

definition message_for_chain ::
  "string \<Rightarrow> number \<Rightarrow> string \<Rightarrow> OAuthChallenge \<Rightarrow> json option \<Rightarrow> string \<Rightarrow> siwe_args \<Rightarrow> bool" where
  "message_for_chain addr n url c v d args = (args = message_args addr n url c v d)"

definition message_for_scope ::
  "string \<Rightarrow> string \<Rightarrow> OAuthChallenge \<Rightarrow> json option \<Rightarrow> string \<Rightarrow> siwe_args \<Rightarrow> bool" where
  "message_for_scope addr url c v d args = (args = message_args addr (siwe_chainId args) url c v d)"

text \<open>
  The calls that follow an accepted challenge \<open>c\<close>, step by step, each step depending
  on how the one before came back. First the parser call and the nonce request. When
  the nonce request gave a nonce \<open>v\<close> and the request URL has a host \<open>d\<close>, the message
  is built, with arguments that satisfy \<open>P v d\<close>. When the message was built, the
  signer is called with it. When the signer gave a signature, the token exchange is
  posted to the token URI of \<open>c\<close> with that message, that signature and the scope
  string of \<open>c\<close> as it is. A step that failed is the last call.
\<close>

definition nonce_of :: "error + response \<Rightarrow> json option option" where
  "nonce_of x =
     (case x of
        Inl err \<Rightarrow> None
      | Inr r \<Rightarrow>
          if ok r
          then (case body r of
                  None \<Rightarrow> None
                | Some d \<Rightarrow> (case js_get d ''nonce'' of Inl err \<Rightarrow> None | Inr v \<Rightarrow> Some v))
          else None)"

fun exchange_step :: "OAuthChallenge \<Rightarrow> string \<Rightarrow> string \<Rightarrow> 'i event list \<Rightarrow> bool" where
  "exchange_step c msg sg (HttpCall (PostJson u b) out # evs) =
     (u = tokenUri c
      \<and> b = \<lparr> grant_type = ''eth_signature'', message = msg, signature = sg,
               body_scope = scope c \<rparr>)"
| "exchange_step c msg sg evs = False"

fun sign_step :: "OAuthChallenge \<Rightarrow> string \<Rightarrow> 'i event list \<Rightarrow> bool" where
  "sign_step c msg (SignCall m (Inl err) # evs) = (m = msg \<and> evs = [])"
| "sign_step c msg (SignCall m (Inr sg) # evs) = (m = msg \<and> exchange_step c msg sg evs)"
| "sign_step c msg evs = False"

fun message_step :: "(siwe_args \<Rightarrow> bool) \<Rightarrow> OAuthChallenge \<Rightarrow> 'i event list \<Rightarrow> bool" where
  "message_step P c (SiweCall args (Inl err) # evs) = (P args \<and> evs = [])"
| "message_step P c (SiweCall args (Inr msg) # evs) = (P args \<and> sign_step c msg evs)"
| "message_step P c evs = False"

fun nonce_step ::
  "(json option \<Rightarrow> string \<Rightarrow> siwe_args \<Rightarrow> bool) \<Rightarrow> OAuthChallenge \<Rightarrow> string option
     \<Rightarrow> 'i event list \<Rightarrow> bool" where
  "nonce_step P c host (HttpCall (Get u) x # evs) =
     (case nonce_of x of
        None \<Rightarrow> evs = []
      | Some v \<Rightarrow> (case host of None \<Rightarrow> evs = [] | Some d \<Rightarrow> message_step (P v d) c evs))"
| "nonce_step P c host evs = False"

fun challenge_steps ::
  "(json option \<Rightarrow> string \<Rightarrow> siwe_args \<Rightarrow> bool) \<Rightarrow> OAuthChallenge \<Rightarrow> string option
     \<Rightarrow> 'i event list \<Rightarrow> bool" where
  "challenge_steps P c host (ParseCall h # evs) =
     (parseWWWAuthenticateChallenge h = Some c \<and> nonce_step P c host evs)"
| "challenge_steps P c host evs = False"

section \<open>A sample world\<close>

text \<open>
  A resource server that accepts the bearer token \<^verbatim>\<open>T1\<close> and gives every other
  request a fixed refusal, and an authorization server that hands out the nonce
  \<^verbatim>\<open>N1\<close> and the token \<^verbatim>\<open>T1\<close>. The world has no state.
\<close>

definition sample_challenge :: string where
  "sample_challenge =
     ''Bearer, realm=\"kv\", scope=\"a b\", token_uri=\"https://as.example/token\", chain_id=\"0\"''"

definition unknown_scheme_challenge :: string where
  "unknown_scheme_challenge =
     ''Bearer, realm=\"kv\", scope=\"a\", token_uri=\"https://as.example/token\", signing_scheme=\"unknownscheme\"''"

definition challenge_401 :: "string option \<Rightarrow> response" where
  "challenge_401 h = \<lparr> status = 401, www_authenticate = h, body = None \<rparr>"

definition not_found_404 :: response where
  "not_found_404 = \<lparr> status = 404, www_authenticate = None, body = None \<rparr>"

definition resource_200 :: response where
  "resource_200 = \<lparr> status = 200, www_authenticate = None, body = Some (JStr ''secret'') \<rparr>"

definition nonce_200 :: response where
  "nonce_200 = \<lparr> status = 200, www_authenticate = None,
                  body = Some (JObj [(''nonce'', JStr ''N1'')]) \<rparr>"

definition token_200 :: response where
  "token_200 = \<lparr> status = 200, www_authenticate = None,
                  body = Some (JObj [(''access_token'', JStr ''T1''), (''token_type'', JStr ''Bearer''),
                                     (''expires_in'', JNum 3600), (''scope'', JStr ''a b'')]) \<rparr>"

definition sample_fetch :: "response \<Rightarrow> unit request \<Rightarrow> unit \<Rightarrow> (error + response) \<times> unit" where
  "sample_fetch refusal req w =
     (case req of
        Resource i rest hs \<Rightarrow>
          if hs ''authorization'' = Some ''Bearer T1'' then (Inr resource_200, w)
          else (Inr refusal, w)
      | Get u \<Rightarrow> (Inr nonce_200, w)
      | PostJson u b \<Rightarrow> (Inr token_200, w))"

definition world_with :: "response \<Rightarrow> (unit, unit) env" where
  "world_with refusal = \<lparr>
     fetch = sample_fetch refusal,
     createSiweMessage = (\<lambda>args w. (Inr ''siwe message'', w)),
     url_host = (\<lambda>u. Some ''api.example'') \<rparr>"

definition sample_env :: "(unit, unit) env" where
  "sample_env = world_with (challenge_401 (Some sample_challenge))"

definition sample_url :: string where
  "sample_url = ''https://api.example/r''"

definition sample_signer :: "string \<Rightarrow> unit \<Rightarrow> (error + string) \<times> unit" where
  "sample_signer msg w = (Inr ''0xsig'', w)"

definition sample_options :: "unit AuthFetchOptions" where
  "sample_options = \<lparr>
     address = ''0xA'',
     signMessage = sample_signer,
     chainId_option = Some (Num 5),
     token = None,
     onToken = Some (\<lambda>a b w. (Inr (), w)) \<rparr>"

definition sample_init :: "unit RequestInit" where
  "sample_init = \<lparr> init_headers = Map.empty, other = () \<rparr>"

definition sample_parsed :: OAuthChallenge where
  "sample_parsed = \<lparr> realm = ''kv'', scope = ''a b'', tokenUri = ''https://as.example/token'',
                      chainId = Num 0, signingScheme = ''eip4361'' \<rparr>"

definition sample_siwe_args :: "number \<Rightarrow> siwe_args" where
  "sample_siwe_args n = \<lparr>
     siwe_address = ''0xA'', siwe_chainId = n, domain = ''api.example'',
     nonce = Some (JStr ''N1''), uri = sample_url, version = ''1'',
     statement = ''Authorize access to your private data.'',
     resources = [''urn:oauth:scope:a'', ''urn:oauth:scope:b''] \<rparr>"

definition sample_exchange :: "unit request" where
  "sample_exchange = PostJson ''https://as.example/token'' \<lparr>
     grant_type = ''eth_signature'', message = ''siwe message'', signature = ''0xsig'',
     body_scope = ''a b'' \<rparr>"

text \<open>
  The calls of a run in the sample world that goes through the whole flow, up to the
  first request, the chain id of the message, the notification, the retry and its
  response.
\<close>

definition sample_trace ::
  "unit request \<Rightarrow> number \<Rightarrow> unit event list \<Rightarrow> unit request \<Rightarrow> response \<Rightarrow> unit event list" where
  "sample_trace first n notified retry final =
     [HttpCall first (Inr (challenge_401 (Some sample_challenge))),
      ParseCall sample_challenge,
      HttpCall (Get ''https://as.example/nonce'') (Inr nonce_200),
      SiweCall (sample_siwe_args n) (Inr ''siwe message''),
      SignCall ''siwe message'' (Inr ''0xsig''),
      HttpCall sample_exchange (Inr token_200)]
     @ notified @ [HttpCall retry (Inr final)]"

text \<open>A world whose resource server answers every request with the sample challenge.\<close>

definition stubborn_fetch :: "unit request \<Rightarrow> unit \<Rightarrow> (error + response) \<times> unit" where
  "stubborn_fetch req w =
     (case req of
        Resource i rest hs \<Rightarrow> (Inr (challenge_401 (Some sample_challenge)), w)
      | Get u \<Rightarrow> (Inr nonce_200, w)
      | PostJson u b \<Rightarrow> (Inr token_200, w))"

definition stubborn_env :: "(unit, unit) env" where
  "stubborn_env = \<lparr>
     fetch = stubborn_fetch,
     createSiweMessage = (\<lambda>args w. (Inr ''siwe message'', w)),
     url_host = (\<lambda>u. Some ''api.example'') \<rparr>"





section \<open>Runs of asynchronous computations\<close>

lemmas run_defs = result_of_def events_of_def state_of_def

lemma run_ret [simp]:
  "result_of (ret x s) = Inr x" "events_of (ret x s) = []" "state_of (ret x s) = s"
  by (simp_all add: run_defs ret_def)

lemma run_throw [simp]:
  "result_of (throw e s) = Inl e" "events_of (throw e s) = []" "state_of (throw e s) = s"
  by (simp_all add: run_defs throw_def)

lemma run_lift_result [simp]:
  "result_of (lift_result r s) = r" "events_of (lift_result r s) = []"
  "state_of (lift_result r s) = s"
  by (simp_all add: run_defs lift_result_def)

lemma run_call_parse [simp]:
  "result_of (call_parse h s) = Inr (parseWWWAuthenticateChallenge h)"
  "events_of (call_parse h s) = [ParseCall h]" "state_of (call_parse h s) = s"
  by (simp_all add: run_defs call_parse_def)

lemma run_call_fetch [simp]:
  "result_of (call_fetch e req w) = fst (fetch e req w)"
  "events_of (call_fetch e req w) = [HttpCall req (fst (fetch e req w))]"
  "state_of (call_fetch e req w) = snd (fetch e req w)"
  by (simp_all add: run_defs call_fetch_def split_beta)

lemma run_call_createSiweMessage [simp]:
  "result_of (call_createSiweMessage e args w) = fst (createSiweMessage e args w)"
  "events_of (call_createSiweMessage e args w) = [SiweCall args (fst (createSiweMessage e args w))]"
  "state_of (call_createSiweMessage e args w) = snd (createSiweMessage e args w)"
  by (simp_all add: run_defs call_createSiweMessage_def split_beta)

lemma run_call_signMessage [simp]:
  "result_of (call_signMessage sign msg w) = fst (sign msg w)"
  "events_of (call_signMessage sign msg w) = [SignCall msg (fst (sign msg w))]"
  "state_of (call_signMessage sign msg w) = snd (sign msg w)"
  by (simp_all add: run_defs call_signMessage_def split_beta)

lemma run_call_onToken [simp]:
  "result_of (call_onToken cb a b w) = fst (cb a b w)"
  "events_of (call_onToken cb a b w) = [TokenCall a b (fst (cb a b w))]"
  "state_of (call_onToken cb a b w) = snd (cb a b w)"
  by (simp_all add: run_defs call_onToken_def split_beta)

lemma run_in_world [simp]:
  "result_of (in_world m s) = result_of (m (snd s))"
  "events_of (in_world m s) = events_of (m (snd s))"
  "state_of (in_world m s) = (fst s, state_of (m (snd s)))"
  by (simp_all add: run_defs in_world_def split_beta)

lemma run_currentToken [simp]:
  "result_of (get_currentToken s) = Inr (fst s)" "events_of (get_currentToken s) = []"
  "state_of (get_currentToken s) = s"
  "result_of (set_currentToken v s) = Inr ()" "events_of (set_currentToken v s) = []"
  "state_of (set_currentToken v s) = (v, snd s)"
  by (simp_all add: run_defs get_currentToken_def set_currentToken_def)

lemma result_await:
  "result_of (await m f s) =
     (case result_of (m s) of Inl e \<Rightarrow> Inl e | Inr x \<Rightarrow> result_of (f x (state_of (m s))))"
  by (simp add: run_defs await_def split: prod.splits sum.splits)

lemma events_await:
  "events_of (await m f s) =
     (case result_of (m s) of Inl e \<Rightarrow> events_of (m s)
      | Inr x \<Rightarrow> events_of (m s) @ events_of (f x (state_of (m s))))"
  by (simp add: run_defs await_def split: prod.splits sum.splits)

lemma state_await:
  "state_of (await m f s) =
     (case result_of (m s) of Inl e \<Rightarrow> state_of (m s)
      | Inr x \<Rightarrow> state_of (f x (state_of (m s))))"
  by (simp add: run_defs await_def split: prod.splits sum.splits)

lemmas await_simps = result_await events_await state_await

lemma parse_empty: "parseWWWAuthenticateChallenge [] = None"
  by (simp add: parseWWWAuthenticateChallenge_def params_of_def truthy_str_def Let_def)

lemma in_events_awaitE:
  assumes "ev \<in> set (events_of (await m f s))"
  obtains (first) "ev \<in> set (events_of (m s))"
  | (later) x where "result_of (m s) = Inr x" "ev \<in> set (events_of (f x (state_of (m s))))"
  using assms by (auto simp: events_await split: sum.splits)

lemma events_fetchNonce:
  "events_of (fetchNonce e u w) = [HttpCall (Get (nonceUrl u)) (fst (fetch e (Get (nonceUrl u)) w))]"
  by (simp add: fetchNonce_def await_simps split: sum.splits)

lemma events_exchangeToken:
  "events_of (exchangeToken e u m sg sc w) =
     [HttpCall (PostJson u \<lparr>grant_type = ''eth_signature'', message = m, signature = sg, body_scope = sc\<rparr>)
        (fst (fetch e (PostJson u \<lparr>grant_type = ''eth_signature'', message = m, signature = sg, body_scope = sc\<rparr>) w))]"
  by (simp add: exchangeToken_def Let_def await_simps split: sum.splits)

lemma events_buildSiweMessage:
  "ev \<in> set (events_of (buildSiweMessage e a n scopes u cid w)) \<Longrightarrow>
    \<exists>args out. ev = SiweCall args out \<and> siwe_chainId args = cid
       \<and> resources args = map ((@) ''urn:oauth:scope:'') scopes"
  by (auto simp: buildSiweMessage_def Let_def split: option.splits)

lemma events_notify:
  "ev \<in> set (events_of (notify_onToken cb tr w)) \<Longrightarrow> \<exists>a b out. ev = TokenCall a b out"
  by (auto simp: notify_onToken_def await_simps split: option.splits sum.splits)


section \<open>The challenge parser\<close>

lemma match_at_nonempty: "match_at s = Some (k, v, r) \<Longrightarrow> k \<noteq> [] \<and> v \<noteq> []"
  by (auto simp: match_at_def Let_def split: if_splits list.splits)

lemma matchAll_nonempty: "(k, v) \<in> set (matchAll s) \<Longrightarrow> k \<noteq> [] \<and> v \<noteq> []"
proof (induction "length s" arbitrary: s rule: less_induct)
  case less
  show ?case
  proof (cases s)
    case Nil
    with less.prems show ?thesis by simp
  next
    case (Cons c cs)
    show ?thesis
    proof (cases "match_at (c # cs)")
      case None
      then have "(k, v) \<in> set (matchAll cs)" using less.prems Cons by simp
      with less.hyps[of cs] Cons show ?thesis by simp
    next
      case (Some t)
      obtain k' v' r where t: "t = (k', v', r)" by (cases t)
      have "(k, v) = (k', v') \<or> (k, v) \<in> set (matchAll r)"
        using less.prems Cons Some t by simp
      moreover have "length r < length s"
        using match_at_shorter[of "c # cs" k' v' r] Some t Cons by simp
      moreover have "k' \<noteq> [] \<and> v' \<noteq> []"
        using match_at_nonempty[of "c # cs" k' v' r] Some t by simp
      ultimately show ?thesis using less.hyps[of r] by blast
    qed
  qed
qed

lemma last_value_snoc:
  "last_value k (ms @ [kv]) = (if fst kv = k then Some (snd kv) else last_value k ms)"
  by (simp add: last_value_def Let_def)

lemma foldl_params_set:
  "k \<noteq> ''__proto__'' \<Longrightarrow>
   foldl params_set m ms k = (case last_value k ms of None \<Rightarrow> m k | Some v \<Rightarrow> Some v)"
proof (induction ms rule: rev_induct)
  case Nil
  then show ?case by (simp add: last_value_def)
next
  case (snoc kv ms)
  then show ?case by (auto simp: last_value_snoc params_set_def)
qed

lemma params_of_last_value: "k \<noteq> ''__proto__'' \<Longrightarrow> params_of h k = last_value k (matchAll h)"
  by (simp add: params_of_def foldl_params_set split: option.splits)

lemma last_value_None: "last_value k ms = None \<longleftrightarrow> k \<notin> set (map fst ms)"
  by (auto simp: last_value_def Let_def filter_empty_conv)

lemma last_value_mem: "last_value k ms = Some v \<Longrightarrow> (k, v) \<in> set ms"
proof -
  assume a: "last_value k ms = Some v"
  let ?f = "filter (\<lambda>kv. fst kv = k) ms"
  from a have ne: "?f \<noteq> []" and v: "v = snd (last ?f)"
    by (auto simp: last_value_def Let_def last_map split: if_splits)
  have "last ?f \<in> set ?f" using ne by (rule last_in_set)
  then have "last ?f \<in> set ms" "fst (last ?f) = k" by auto
  with v show ?thesis by (metis prod.collapse)
qed

lemma truthy_param:
  "k \<noteq> ''__proto__'' \<Longrightarrow> truthy_str (params_of h k) \<longleftrightarrow> key_present k h"
proof -
  assume k: "k \<noteq> ''__proto__''"
  have p: "params_of h k = last_value k (matchAll h)"
    using k by (rule params_of_last_value)
  show ?thesis
  proof (cases "last_value k (matchAll h)")
    case None
    then have "\<not> key_present k h"
      unfolding key_present_def using last_value_None[of k "matchAll h"] by blast
    then show ?thesis unfolding p None by (simp add: truthy_str_def)
  next
    case (Some v)
    then have "v \<noteq> []" using last_value_mem matchAll_nonempty by blast
    moreover have "key_present k h"
      unfolding key_present_def using Some last_value_None[of k "matchAll h"] by auto
    ultimately show ?thesis unfolding p Some by (simp add: truthy_str_def)
  qed
qed

text \<open>
  C7. \<^verbatim>\<open>parseWWWAuthenticateChallenge\<close> is a total function into an option: it never
  fails. It yields no challenge exactly when one of the keys \<^verbatim>\<open>realm\<close>, \<^verbatim>\<open>scope\<close>,
  \<^verbatim>\<open>token_uri\<close> is not the key of a \<^verbatim>\<open>key="value"\<close> pair found in the header; so a
  challenge is returned only when all three are present.
\<close>

theorem parse_none_iff_key_missing:
  "parseWWWAuthenticateChallenge header = None \<longleftrightarrow>
     \<not> key_present ''realm'' header \<or> \<not> key_present ''scope'' header
     \<or> \<not> key_present ''token_uri'' header"
  by (simp add: parseWWWAuthenticateChallenge_def Let_def truthy_param)

theorem parse_none_iff_key_missing_witness:
  "\<not> key_present ''scope'' ''Bearer, realm=\"kv\", token_uri=\"https://as.example/token\"''
   \<and> parseWWWAuthenticateChallenge
         ''Bearer, realm=\"kv\", token_uri=\"https://as.example/token\"'' = None"
proof -
  have k: "\<not> key_present ''scope'' ''Bearer, realm=\"kv\", token_uri=\"https://as.example/token\"''"
    by code_simp
  show ?thesis
    using k parse_none_iff_key_missing
      [of "''Bearer, realm=\"kv\", token_uri=\"https://as.example/token\"''"]
    by blast
qed

text \<open>
  C8. When the parser returns a challenge, each of its fields is taken from the last
  pair with that key in the header: \<^verbatim>\<open>realm\<close>, \<^verbatim>\<open>scope\<close> and \<^verbatim>\<open>token_uri\<close> are the
  values of their last occurrences, and where \<^verbatim>\<open>chain_id\<close> or \<^verbatim>\<open>signing_scheme\<close>
  occur, the chain id is \<^verbatim>\<open>parseInt\<close> of the last value and the signing scheme is the
  last value.
\<close>

theorem parse_last_match_wins:
  assumes "parseWWWAuthenticateChallenge header = Some c"
  shows "last_value ''realm'' (matchAll header) = Some (realm c)
       \<and> last_value ''scope'' (matchAll header) = Some (scope c)
       \<and> last_value ''token_uri'' (matchAll header) = Some (tokenUri c)
       \<and> (\<forall>v. last_value ''chain_id'' (matchAll header) = Some v \<longrightarrow> chainId c = parseInt v)
       \<and> (\<forall>v. last_value ''signing_scheme'' (matchAll header) = Some v \<longrightarrow> signingScheme c = v)"
proof -
  have nz: "last_value k (matchAll header) = Some v \<Longrightarrow> v \<noteq> []" for k v
    using last_value_mem matchAll_nonempty by blast
  have p: "params_of header ''realm'' = last_value ''realm'' (matchAll header)"
      "params_of header ''scope'' = last_value ''scope'' (matchAll header)"
      "params_of header ''token_uri'' = last_value ''token_uri'' (matchAll header)"
      "params_of header ''chain_id'' = last_value ''chain_id'' (matchAll header)"
      "params_of header ''signing_scheme'' = last_value ''signing_scheme'' (matchAll header)"
    by (simp_all add: params_of_last_value)
  from assms show ?thesis
    unfolding parseWWWAuthenticateChallenge_def Let_def p
    by (auto simp: truthy_str_def split: if_splits option.splits dest: nz)
qed

theorem parse_last_match_wins_witness:
  "parseWWWAuthenticateChallenge
     ''realm=\"a\", scope=\"s1\", realm=\"b\", token_uri=\"t1\", scope=\"s2 s3\", token_uri=\"t2\", chain_id=\"5\", chain_id=\"10\"''
     = Some \<lparr>realm = ''b'', scope = ''s2 s3'', tokenUri = ''t2'', chainId = Num 10,
              signingScheme = ''eip4361''\<rparr>
   \<and> last_value ''realm'' (matchAll
         ''realm=\"a\", scope=\"s1\", realm=\"b\", token_uri=\"t1\", scope=\"s2 s3\", token_uri=\"t2\", chain_id=\"5\", chain_id=\"10\"'')
       = Some ''b''"
proof -
  have p: "parseWWWAuthenticateChallenge
     ''realm=\"a\", scope=\"s1\", realm=\"b\", token_uri=\"t1\", scope=\"s2 s3\", token_uri=\"t2\", chain_id=\"5\", chain_id=\"10\"''
     = Some \<lparr>realm = ''b'', scope = ''s2 s3'', tokenUri = ''t2'', chainId = Num 10,
              signingScheme = ''eip4361''\<rparr>"
    by code_simp
  show ?thesis using p parse_last_match_wins [OF p] by simp
qed

section \<open>The nonce endpoint\<close>

lemma replace_first_absent: "\<not> sublist pat s \<Longrightarrow> replace_first pat rep s = s"
proof (induction s)
  case Nil
  then show ?case by auto
next
  case (Cons c cs)
  then show ?case by (auto simp: sublist_Cons_right)
qed

lemma prefix_of_longer:
  assumes "prefix pat (xs @ pat @ post)" and "pat \<noteq> []" and "xs \<noteq> []"
  shows "prefix pat (xs @ butlast pat)"
proof -
  have "length pat \<le> length (xs @ butlast pat)" using assms(3) by (cases xs) auto
  moreover have "prefix (xs @ butlast pat) (xs @ pat @ post)"
    by (metis append_butlast_last_id assms(2) prefix_def append.assoc same_prefix_prefix)
  ultimately show ?thesis using assms(1) by (metis prefix_length_prefix)
qed

lemma replace_first_at:
  "pat \<noteq> [] \<Longrightarrow> \<not> sublist pat (pre @ butlast pat) \<Longrightarrow>
   replace_first pat rep (pre @ pat @ post) = pre @ rep @ post"
proof (induction pre)
  case Nil
  then show ?case by (cases pat) auto
next
  case (Cons c pre)
  have np: "\<not> prefix pat ((c # pre) @ pat @ post)"
  proof
    assume "prefix pat ((c # pre) @ pat @ post)"
    then have "prefix pat ((c # pre) @ butlast pat)"
      using Cons.prems(1) by (intro prefix_of_longer) auto
    then show False using Cons.prems(2) by (auto dest: prefix_imp_sublist)
  qed
  have "\<not> sublist pat (pre @ butlast pat)"
    using Cons.prems(2) by (auto simp: sublist_Cons_right)
  with Cons.IH Cons.prems(1) np show ?case by simp
qed

lemma replace_first_occurrence:
  "pat \<noteq> [] \<Longrightarrow> first_occurrence pat s pre post \<Longrightarrow> replace_first pat rep s = pre @ rep @ post"
  by (simp add: first_occurrence_def replace_first_at)

lemma events_fetchNonce_oauth:
  "events_of (fetchNonce_oauth e u w) =
     [HttpCall (Get (nonceUrl_oauth u)) (fst (fetch e (Get (nonceUrl_oauth u)) w))]"
  by (simp add: fetchNonce_oauth_def await_simps split: sum.splits)

text \<open>
  C5, as amended. \<^verbatim>\<open>fetchNonce\<close> always issues exactly one request, a \<^verbatim>\<open>GET\<close> of the
  nonce URL, whatever the token URI is. In the package the nonce URL is the token URI
  with the first occurrence of \<^verbatim>\<open>/token\<close> replaced by \<^verbatim>\<open>/nonce\<close>, and the token URI
  itself when \<^verbatim>\<open>/token\<close> does not occur. In the \<^verbatim>\<open>oauth\<close> module the nonce URL is the
  token URI with the first occurrence of \<^verbatim>\<open>/token\<close> removed and \<^verbatim>\<open>/nonce\<close> appended
  at the end; when \<^verbatim>\<open>/token\<close> does not occur, \<^verbatim>\<open>/nonce\<close> is appended to the token URI.
\<close>

theorem nonce_url_derivation:
  "events_of (fetchNonce e u w) = [HttpCall (Get (nonceUrl u)) (fst (fetch e (Get (nonceUrl u)) w))]
   \<and> (first_occurrence ''/token'' u pre post \<longrightarrow> nonceUrl u = pre @ ''/nonce'' @ post)
   \<and> (\<not> sublist ''/token'' u \<longrightarrow> nonceUrl u = u)
   \<and> events_of (fetchNonce_oauth e u w)
       = [HttpCall (Get (nonceUrl_oauth u)) (fst (fetch e (Get (nonceUrl_oauth u)) w))]
   \<and> (first_occurrence ''/token'' u pre post \<longrightarrow> nonceUrl_oauth u = pre @ post @ ''/nonce'')
   \<and> (\<not> sublist ''/token'' u \<longrightarrow> nonceUrl_oauth u = u @ ''/nonce'')"
proof -
  have ne: "''/token'' \<noteq> []" by simp
  have a: "first_occurrence ''/token'' u pre post \<Longrightarrow> nonceUrl u = pre @ ''/nonce'' @ post"
    unfolding nonceUrl_def by (rule replace_first_occurrence [OF ne])
  have b: "first_occurrence ''/token'' u pre post \<Longrightarrow> nonceUrl_oauth u = pre @ post @ ''/nonce''"
    unfolding nonceUrl_oauth_def Let_def
    using replace_first_occurrence [OF ne, of u pre post "[]"] by simp
  have c: "\<not> sublist ''/token'' u \<Longrightarrow> nonceUrl u = u"
    unfolding nonceUrl_def by (rule replace_first_absent)
  have d: "\<not> sublist ''/token'' u \<Longrightarrow> nonceUrl_oauth u = u @ ''/nonce''"
    unfolding nonceUrl_oauth_def Let_def by (simp add: replace_first_absent)
  show ?thesis using a b c d by (simp add: events_fetchNonce events_fetchNonce_oauth)
qed

theorem nonce_url_derivation_witness:
  "first_occurrence ''/token'' ''https://as.example/token/v2/token'' ''https://as.example'' ''/v2/token''
   \<and> nonceUrl ''https://as.example/token/v2/token'' = ''https://as.example/nonce/v2/token''
   \<and> nonceUrl_oauth ''https://as.example/token/v2/token'' = ''https://as.example/v2/token/nonce''
   \<and> \<not> sublist ''/token'' ''https://as.example/auth''
   \<and> nonceUrl ''https://as.example/auth'' = ''https://as.example/auth''
   \<and> nonceUrl_oauth ''https://as.example/auth'' = ''https://as.example/auth/nonce''"
proof -
  have f: "first_occurrence ''/token'' ''https://as.example/token/v2/token''
             ''https://as.example'' ''/v2/token''"
    by code_simp
  have n: "\<not> sublist ''/token'' ''https://as.example/auth''"
    by code_simp
  note t1 = nonce_url_derivation [of sample_env "''https://as.example/token/v2/token''" "()"
        "''https://as.example''" "''/v2/token''"]
  note t2 = nonce_url_derivation [of sample_env "''https://as.example/auth''" "()" "[]" "[]"]
  have a: "nonceUrl ''https://as.example/token/v2/token'' = ''https://as.example'' @ ''/nonce'' @ ''/v2/token''"
    using t1 f by blast
  have b: "nonceUrl_oauth ''https://as.example/token/v2/token'' = ''https://as.example'' @ ''/v2/token'' @ ''/nonce''"
    using t1 f by blast
  have c: "nonceUrl ''https://as.example/auth'' = ''https://as.example/auth''"
    using t2 n by blast
  have d: "nonceUrl_oauth ''https://as.example/auth'' = ''https://as.example/auth'' @ ''/nonce''"
    using t2 n by blast
  show ?thesis using f n a b c d by simp
qed

text \<open>
  The claim as stated fails in the \<^verbatim>\<open>oauth\<close> module: for a token URI with text after
  \<^verbatim>\<open>/token\<close> the nonce URL is not the URI with \<^verbatim>\<open>/token\<close> replaced by \<^verbatim>\<open>/nonce\<close>, and
  a token URI without \<^verbatim>\<open>/token\<close> is not used unchanged.
\<close>

theorem nonce_url_oauth_counterexample:
  "first_occurrence ''/token'' ''https://as.example/token/v2'' ''https://as.example'' ''/v2''
   \<and> nonceUrl_oauth ''https://as.example/token/v2'' = ''https://as.example/v2/nonce''
   \<and> nonceUrl_oauth ''https://as.example/token/v2'' \<noteq> ''https://as.example'' @ ''/nonce'' @ ''/v2''
   \<and> \<not> sublist ''/token'' ''https://as.example/auth''
   \<and> nonceUrl_oauth ''https://as.example/auth'' \<noteq> ''https://as.example/auth''"
  by code_simp

section \<open>The shape of a run\<close>

lemma set_authorization_cases:
  "set_authorization v hs =
     (if refused_value (normalize_value v) then Inl TypeError
      else Inr (hs(''authorization'' \<mapsto> normalize_value v)))"
  by (simp add: set_authorization_def Let_def)

lemma parse_empty_header [simp]: "parseWWWAuthenticateChallenge [] = None"
  by (rule parse_empty)

lemma authFetch_unfold:
  "authFetch e input options fetchInit =
     await (lift_result (authFetch_headers options fetchInit)) (\<lambda>hs.
     await (call_fetch e (Resource input (Some (other fetchInit)) hs)) (\<lambda>response.
       if status response = 401 then
         (case www_authenticate response of
            None \<Rightarrow> ret response
          | Some wwwAuthenticate \<Rightarrow>
              if wwwAuthenticate = [] then ret response
              else await (call_parse wwwAuthenticate) (\<lambda>challenge.
                case challenge of
                  None \<Rightarrow> ret response
                | Some c \<Rightarrow>
                    if signingScheme c \<noteq> ''eip4361''
                    then throw (UnsupportedScheme (signingScheme c))
                    else authFetch_flow e input options fetchInit c))
       else ret response))"
  unfolding authFetch_def authFetch_flow_def authFetch_headers_def Let_def UnsupportedScheme_def
  by (rule refl)

lemma bound_authFetch_unfold:
  "bound_authFetch e options input init =
     await get_currentToken (\<lambda>currentToken.
     await (lift_result (bound_authFetch_headers init currentToken)) (\<lambda>hs.
     await (in_world (call_fetch e (Resource input (map_option other init) hs)))
       (\<lambda>response.
       if status response = 401 then
         (case www_authenticate response of
            None \<Rightarrow> ret response
          | Some wwwAuthenticate \<Rightarrow>
              if wwwAuthenticate = [] then ret response
              else await (call_parse wwwAuthenticate) (\<lambda>challenge.
                case challenge of
                  None \<Rightarrow> ret response
                | Some c \<Rightarrow>
                    if signingScheme c \<noteq> ''eip4361''
                    then throw (UnsupportedScheme (signingScheme c))
                    else bound_authFetch_flow e options input init c))
       else ret response)))"
  unfolding bound_authFetch_def bound_authFetch_flow_def bound_authFetch_headers_def Let_def
    UnsupportedScheme_def
  by (rule refl)

lemma fetchWithOAuth_unfold:
  "fetchWithOAuth e url sign address' existingToken =
     await (lift_result (fetchWithOAuth_headers existingToken)) (\<lambda>hs.
     await (call_fetch e (Resource (UrlString url) None hs)) (\<lambda>response.
       if status response = 401 then
         (case www_authenticate response of
            None \<Rightarrow> throw (Error ''Missing WWW-Authenticate header in 401 response'')
          | Some wwwAuthenticate \<Rightarrow>
              if wwwAuthenticate = []
              then throw (Error ''Missing WWW-Authenticate header in 401 response'')
              else await (call_parse wwwAuthenticate) (\<lambda>challenge.
                case challenge of
                  None \<Rightarrow> throw (Error ''Failed to parse WWW-Authenticate challenge'')
                | Some c \<Rightarrow>
                    if signingScheme c \<noteq> ''eip4361''
                    then throw (UnsupportedScheme (signingScheme c))
                    else fetchWithOAuth_flow e url sign address' c))
       else if \<not> ok response
       then throw (Error (''Request failed: '' @ string_of_nat (status response)))
       else await (lift_result (read_json response)) (\<lambda>data'.
            ret \<lparr> data = data',
                  token_out = Some (JStr (if truthy_str existingToken
                                          then the existingToken else [])) \<rparr>)))"
  unfolding fetchWithOAuth_def fetchWithOAuth_flow_def fetchWithOAuth_headers_def Let_def
    UnsupportedScheme_def
  by (rule refl)

text \<open>A run whose first request could not be built makes no call at all.\<close>

lemma authFetch_refused:
  "authFetch_headers options fetchInit = Inl err \<Longrightarrow>
   events_of (authFetch e input options fetchInit w) = []
   \<and> result_of (authFetch e input options fetchInit w) = Inl err"
  by (simp add: authFetch_unfold await_simps)

lemma bound_authFetch_refused:
  "bound_authFetch_headers init (fst s) = Inl err \<Longrightarrow>
   events_of (bound_authFetch e options input init s) = []
   \<and> result_of (bound_authFetch e options input init s) = Inl err"
  by (simp add: bound_authFetch_unfold await_simps)

lemma fetchWithOAuth_refused:
  "fetchWithOAuth_headers existing = Inl err \<Longrightarrow>
   events_of (fetchWithOAuth e url sign addr existing w) = []
   \<and> result_of (fetchWithOAuth e url sign addr existing w) = Inl err"
  by (simp add: fetchWithOAuth_unfold await_simps)

lemma authFetch_headersE:
  assumes "events_of (authFetch e input options fetchInit w) \<noteq> []"
  obtains hs where "authFetch_headers options fetchInit = Inr hs"
  using assms authFetch_refused [of options fetchInit _ e input w]
  by (cases "authFetch_headers options fetchInit") auto

lemma bound_authFetch_headersE:
  assumes "events_of (bound_authFetch e options input init s) \<noteq> []"
  obtains hs where "bound_authFetch_headers init (fst s) = Inr hs"
  using assms bound_authFetch_refused [of init s _ e options input]
  by (cases "bound_authFetch_headers init (fst s)") auto

lemma fetchWithOAuth_headersE:
  assumes "events_of (fetchWithOAuth e url sign addr existing w) \<noteq> []"
  obtains hs where "fetchWithOAuth_headers existing = Inr hs"
  using assms fetchWithOAuth_refused [of existing _ e url sign addr w]
  by (cases "fetchWithOAuth_headers existing") auto

lemma authFetch_built:
  "events_of (authFetch e input options fetchInit w) \<noteq> [] \<Longrightarrow>
   \<exists>hs. authFetch_headers options fetchInit = Inr hs"
  by (erule authFetch_headersE) simp

lemma bound_authFetch_built:
  "events_of (bound_authFetch e options input init s) \<noteq> [] \<Longrightarrow>
   \<exists>hs. bound_authFetch_headers init (fst s) = Inr hs"
  by (erule bound_authFetch_headersE) simp

lemma fetchWithOAuth_built:
  "events_of (fetchWithOAuth e url sign addr existing w) \<noteq> [] \<Longrightarrow>
   \<exists>hs. fetchWithOAuth_headers existing = Inr hs"
  by (erule fetchWithOAuth_headersE) simp

lemma authFetch_gated:
  "authFetch_headers options fetchInit = Inr hs \<Longrightarrow>
   events_of (authFetch e input options fetchInit w) =
     gated (Resource input (Some (other fetchInit)) hs)
       (fst (fetch e (Resource input (Some (other fetchInit)) hs) w))
       (\<lambda>c. events_of (authFetch_flow e input options fetchInit c
              (snd (fetch e (Resource input (Some (other fetchInit)) hs) w))))"
  unfolding authFetch_unfold gated_def
  by (simp add: await_simps accepted_def parser_calls_def split: sum.splits option.splits)

lemma authFetch_accepted_result:
  "authFetch_headers options fetchInit = Inr hs \<Longrightarrow>
   fst (fetch e (Resource input (Some (other fetchInit)) hs) w) = Inr r \<Longrightarrow>
   accepted r = Some c \<Longrightarrow>
   result_of (authFetch e input options fetchInit w) =
     result_of (authFetch_flow e input options fetchInit c
       (snd (fetch e (Resource input (Some (other fetchInit)) hs) w)))"
  unfolding authFetch_unfold
  by (auto simp: await_simps accepted_def split: if_splits option.splits)

lemma bound_authFetch_gated:
  "bound_authFetch_headers init (fst s) = Inr hs \<Longrightarrow>
   events_of (bound_authFetch e options input init s) =
     gated (Resource input (map_option other init) hs)
       (fst (fetch e (Resource input (map_option other init) hs) (snd s)))
       (\<lambda>c. events_of (bound_authFetch_flow e options input init c
              (fst s, snd (fetch e (Resource input (map_option other init) hs) (snd s)))))"
  unfolding bound_authFetch_unfold gated_def
  by (simp add: await_simps accepted_def parser_calls_def split: sum.splits option.splits)

lemma bound_authFetch_accepted_result:
  "bound_authFetch_headers init (fst s) = Inr hs \<Longrightarrow>
   fst (fetch e (Resource input (map_option other init) hs) (snd s)) = Inr r \<Longrightarrow>
   accepted r = Some c \<Longrightarrow>
   result_of (bound_authFetch e options input init s) =
     result_of (bound_authFetch_flow e options input init c
       (fst s, snd (fetch e (Resource input (map_option other init) hs) (snd s))))"
  unfolding bound_authFetch_unfold
  by (auto simp: await_simps accepted_def split: if_splits option.splits)

lemma fetchWithOAuth_gated:
  "fetchWithOAuth_headers existing = Inr hs \<Longrightarrow>
   events_of (fetchWithOAuth e url sign addr existing w) =
     gated (Resource (UrlString url) None hs)
       (fst (fetch e (Resource (UrlString url) None hs) w))
       (\<lambda>c. events_of (fetchWithOAuth_flow e url sign addr c
              (snd (fetch e (Resource (UrlString url) None hs) w))))"
  unfolding fetchWithOAuth_unfold gated_def
  by (simp add: await_simps accepted_def parser_calls_def split: sum.splits option.splits)

lemma fetchWithOAuth_accepted_result:
  "fetchWithOAuth_headers existing = Inr hs \<Longrightarrow>
   fst (fetch e (Resource (UrlString url) None hs) w) = Inr r \<Longrightarrow> accepted r = Some c \<Longrightarrow>
   result_of (fetchWithOAuth e url sign addr existing w) =
     result_of (fetchWithOAuth_flow e url sign addr c
       (snd (fetch e (Resource (UrlString url) None hs) w)))"
  unfolding fetchWithOAuth_unfold
  by (auto simp: await_simps accepted_def split: if_splits option.splits)

section \<open>The first attempt\<close>

lemma parse_some_nonempty: "parseWWWAuthenticateChallenge h = Some c \<Longrightarrow> h \<noteq> []"
  using parse_empty by auto

lemma authFetch_not_401:
  assumes "events_of (authFetch e input options fetchInit w) = HttpCall req (Inr r) # rest"
    and "status r \<noteq> 401"
  shows "result_of (authFetch e input options fetchInit w) = Inr r \<and> rest = []"
proof -
  from assms(1) obtain hs where h: "authFetch_headers options fetchInit = Inr hs"
    using authFetch_built [of e input options fetchInit w] by auto
  show ?thesis
    using assms by (auto simp: authFetch_unfold h await_simps split: sum.splits)
qed

lemma authFetch_no_challenge:
  assumes "events_of (authFetch e input options fetchInit w) = HttpCall req (Inr r) # rest"
    and "status r = 401" and "no_challenge r"
  shows "result_of (authFetch e input options fetchInit w) = Inr r \<and> rest = parser_calls r"
proof -
  from assms(1) obtain hs where h: "authFetch_headers options fetchInit = Inr hs"
    using authFetch_built [of e input options fetchInit w] by auto
  show ?thesis
  proof (cases "www_authenticate r")
    case None
    with assms show ?thesis
      by (auto simp: authFetch_unfold h await_simps parser_calls_def split: sum.splits)
  next
    case (Some hdr)
    then have p: "parseWWWAuthenticateChallenge hdr = None"
      using assms(3) by (simp add: no_challenge_def)
    show ?thesis
      by (cases "hdr = []")
         (use assms Some p in \<open>auto simp: authFetch_unfold h await_simps parser_calls_def
            split: sum.splits\<close>)
  qed
qed

lemma authFetch_unsupported:
  assumes "events_of (authFetch e input options fetchInit w) = HttpCall req (Inr r) # rest"
    and "status r = 401" and "www_authenticate r = Some hdr"
    and "parseWWWAuthenticateChallenge hdr = Some c" and "signingScheme c \<noteq> ''eip4361''"
  shows "result_of (authFetch e input options fetchInit w) = Inl (UnsupportedScheme (signingScheme c))
         \<and> rest = [ParseCall hdr]"
proof -
  from assms(1) obtain hs where h: "authFetch_headers options fetchInit = Inr hs"
    using authFetch_built [of e input options fetchInit w] by auto
  show ?thesis
    using assms parse_some_nonempty [OF assms(4)]
    by (auto simp: authFetch_unfold h await_simps split: sum.splits)
qed

lemma bound_authFetch_not_401:
  assumes "events_of (bound_authFetch e options input init s) = HttpCall req (Inr r) # rest"
    and "status r \<noteq> 401"
  shows "result_of (bound_authFetch e options input init s) = Inr r \<and> rest = []"
proof -
  from assms(1) obtain hs where h: "bound_authFetch_headers init (fst s) = Inr hs"
    using bound_authFetch_built [of e options input init s] by auto
  show ?thesis
    using assms by (auto simp: bound_authFetch_unfold h await_simps split: sum.splits)
qed

lemma bound_authFetch_no_challenge:
  assumes "events_of (bound_authFetch e options input init s) = HttpCall req (Inr r) # rest"
    and "status r = 401" and "no_challenge r"
  shows "result_of (bound_authFetch e options input init s) = Inr r \<and> rest = parser_calls r"
proof -
  from assms(1) obtain hs where h: "bound_authFetch_headers init (fst s) = Inr hs"
    using bound_authFetch_built [of e options input init s] by auto
  show ?thesis
  proof (cases "www_authenticate r")
    case None
    with assms show ?thesis
      by (auto simp: bound_authFetch_unfold h await_simps parser_calls_def split: sum.splits)
  next
    case (Some hdr)
    then have p: "parseWWWAuthenticateChallenge hdr = None"
      using assms(3) by (simp add: no_challenge_def)
    show ?thesis
      by (cases "hdr = []")
         (use assms Some p in \<open>auto simp: bound_authFetch_unfold h await_simps parser_calls_def
            split: sum.splits\<close>)
  qed
qed

lemma bound_authFetch_unsupported:
  assumes "events_of (bound_authFetch e options input init s) = HttpCall req (Inr r) # rest"
    and "status r = 401" and "www_authenticate r = Some hdr"
    and "parseWWWAuthenticateChallenge hdr = Some c" and "signingScheme c \<noteq> ''eip4361''"
  shows "result_of (bound_authFetch e options input init s) = Inl (UnsupportedScheme (signingScheme c))
         \<and> rest = [ParseCall hdr]"
proof -
  from assms(1) obtain hs where h: "bound_authFetch_headers init (fst s) = Inr hs"
    using bound_authFetch_built [of e options input init s] by auto
  show ?thesis
    using assms parse_some_nonempty [OF assms(4)]
    by (auto simp: bound_authFetch_unfold h await_simps split: sum.splits)
qed

lemma run_authFetch_oneshot:
  "result_of (authFetch_oneshot e input options fetchInit w)
     = result_of (bound_authFetch e options input (Some fetchInit) (createAuthFetch options, w))"
  "events_of (authFetch_oneshot e input options fetchInit w)
     = events_of (bound_authFetch e options input (Some fetchInit) (createAuthFetch options, w))"
  by (simp_all add: authFetch_oneshot_def run_defs split_beta)

lemma fetchWithOAuth_not_401:
  assumes "events_of (fetchWithOAuth e url sign addr existing w) = HttpCall req (Inr r) # rest"
    and "status r \<noteq> 401"
  shows "rest = [] \<and>
         result_of (fetchWithOAuth e url sign addr existing w) =
           (if ok r
            then (case body r of
                    None \<Rightarrow> Inl SyntaxError
                  | Some d \<Rightarrow> Inr \<lparr> data = d,
                      token_out = Some (JStr (if truthy_str existing then the existing else [])) \<rparr>)
            else Inl (Error (''Request failed: '' @ string_of_nat (status r))))"
proof -
  from assms(1) obtain hs where h: "fetchWithOAuth_headers existing = Inr hs"
    using fetchWithOAuth_built [of e url sign addr existing w] by auto
  show ?thesis
    by (cases "body r")
       (use assms in \<open>auto simp: fetchWithOAuth_unfold h await_simps read_json_def
          split: sum.splits\<close>)
qed

lemma fetchWithOAuth_no_challenge:
  assumes "events_of (fetchWithOAuth e url sign addr existing w) = HttpCall req (Inr r) # rest"
    and "status r = 401" and "no_challenge r"
  shows "rest = parser_calls r \<and>
         result_of (fetchWithOAuth e url sign addr existing w) =
           Inl (Error (if rest = [] then ''Missing WWW-Authenticate header in 401 response''
                       else ''Failed to parse WWW-Authenticate challenge''))"
proof -
  from assms(1) obtain hs where h: "fetchWithOAuth_headers existing = Inr hs"
    using fetchWithOAuth_built [of e url sign addr existing w] by auto
  show ?thesis
  proof (cases "www_authenticate r")
    case None
    with assms show ?thesis
      by (auto simp: fetchWithOAuth_unfold h await_simps parser_calls_def split: sum.splits)
  next
    case (Some hdr)
    then have p: "parseWWWAuthenticateChallenge hdr = None"
      using assms(3) by (simp add: no_challenge_def)
    show ?thesis
      by (cases "hdr = []")
         (use assms Some p in \<open>auto simp: fetchWithOAuth_unfold h await_simps parser_calls_def
            split: sum.splits\<close>)
  qed
qed

lemma fetchWithOAuth_unsupported:
  assumes "events_of (fetchWithOAuth e url sign addr existing w) = HttpCall req (Inr r) # rest"
    and "status r = 401" and "www_authenticate r = Some hdr"
    and "parseWWWAuthenticateChallenge hdr = Some c" and "signingScheme c \<noteq> ''eip4361''"
  shows "result_of (fetchWithOAuth e url sign addr existing w) = Inl (UnsupportedScheme (signingScheme c))
         \<and> rest = [ParseCall hdr]"
proof -
  from assms(1) obtain hs where h: "fetchWithOAuth_headers existing = Inr hs"
    using fetchWithOAuth_built [of e url sign addr existing w] by auto
  show ?thesis
    using assms parse_some_nonempty [OF assms(4)]
    by (auto simp: fetchWithOAuth_unfold h await_simps split: sum.splits)
qed

lemma bearer_T1:
  "set_authorization ''Bearer T1'' hs = Inr (hs(''authorization'' \<mapsto> ''Bearer T1''))"
proof -
  have "normalize_value ''Bearer T1'' = ''Bearer T1''" by code_simp
  moreover have "\<not> refused_value ''Bearer T1''" by code_simp
  ultimately show ?thesis by (simp add: set_authorization_cases)
qed

lemmas sample_defs = world_with_def sample_fetch_def sample_options_def sample_init_def
  sample_signer_def sample_url_def bearer_T1 challenge_401_def not_found_404_def
  resource_200_def nonce_200_def token_200_def

text \<open>
  C4, as amended. When the first attempt completes with a status other than 401, every
  orchestrator has made exactly one call, the resource request, and nothing else: no
  parser, nonce, signer or token exchange call. \<^verbatim>\<open>authFetch\<close> (both copies) and the
  function made by \<^verbatim>\<open>createAuthFetch\<close> return that response as it is.
  \<^verbatim>\<open>fetchWithOAuth\<close> returns no response: on a successful status it returns the parsed
  JSON body with the existing token (or the empty string), fails with a
  \<^verbatim>\<open>SyntaxError\<close> when the body is not JSON, and on any other status fails with
  \<^verbatim>\<open>Request failed: <status>\<close>.
\<close>

theorem first_attempt_not_401:
  assumes "status r \<noteq> 401"
  shows "(events_of (authFetch e input options fetchInit w) = HttpCall req (Inr r) # rest \<longrightarrow>
            result_of (authFetch e input options fetchInit w) = Inr r \<and> rest = [])
       \<and> (events_of (bound_authFetch e options input init s) = HttpCall req (Inr r) # rest \<longrightarrow>
            result_of (bound_authFetch e options input init s) = Inr r \<and> rest = [])
       \<and> (events_of (authFetch_oneshot e input options fetchInit w) = HttpCall req (Inr r) # rest \<longrightarrow>
            result_of (authFetch_oneshot e input options fetchInit w) = Inr r \<and> rest = [])
       \<and> (events_of (fetchWithOAuth e url sign addr existing w) = HttpCall req (Inr r) # rest \<longrightarrow>
            rest = [] \<and>
            result_of (fetchWithOAuth e url sign addr existing w) =
              (if ok r
               then (case body r of
                       None \<Rightarrow> Inl SyntaxError
                     | Some d \<Rightarrow> Inr \<lparr> data = d,
                         token_out = Some (JStr (if truthy_str existing then the existing else [])) \<rparr>)
               else Inl (Error (''Request failed: '' @ string_of_nat (status r)))))"
  unfolding run_authFetch_oneshot
  by (intro conjI; rule impI)
     (rule authFetch_not_401, assumption, (rule assms)+,
      rule bound_authFetch_not_401, assumption, (rule assms)+,
      rule bound_authFetch_not_401, assumption, (rule assms)+,
      rule fetchWithOAuth_not_401, assumption, (rule assms)+)

theorem first_attempt_not_401_witness:
  "status resource_200 \<noteq> 401
   \<and> events_of (authFetch sample_env (UrlString sample_url)
        (sample_options \<lparr> token := Some ''T1'' \<rparr>) sample_init ())
       = [HttpCall (Resource (UrlString sample_url) (Some ())
            [''authorization'' \<mapsto> ''Bearer T1'']) (Inr resource_200)]
   \<and> result_of (authFetch sample_env (UrlString sample_url)
        (sample_options \<lparr> token := Some ''T1'' \<rparr>) sample_init ()) = Inr resource_200"
proof -
  have s: "status resource_200 \<noteq> 401" by (simp add: resource_200_def)
  have ev: "events_of (authFetch sample_env (UrlString sample_url)
        (sample_options \<lparr> token := Some ''T1'' \<rparr>) sample_init ())
       = HttpCall (Resource (UrlString sample_url) (Some ())
            [''authorization'' \<mapsto> ''Bearer T1'']) (Inr resource_200) # []"
    by (simp add: authFetch_def Let_def await_simps sample_env_def sample_defs truthy_str_def)
  from first_attempt_not_401 [OF s, THEN conjunct1, rule_format, OF ev] s ev
  show ?thesis by simp
qed

text \<open>
  The claim as stated fails for \<^verbatim>\<open>fetchWithOAuth\<close>: a first response with status 404
  is not returned; the call fails with \<^verbatim>\<open>Request failed: 404\<close>.
\<close>

theorem fetchWithOAuth_not_401_counterexample:
  "status not_found_404 \<noteq> 401
   \<and> events_of (fetchWithOAuth (world_with not_found_404) sample_url sample_signer ''0xA'' None ())
       = [HttpCall (Resource (UrlString sample_url) None Map.empty) (Inr not_found_404)]
   \<and> result_of (fetchWithOAuth (world_with not_found_404) sample_url sample_signer ''0xA'' None ())
       = Inl (Error ''Request failed: 404'')"
proof -
  have n: "string_of_nat 404 = ''404''" by code_simp
  show ?thesis
    by (simp add: fetchWithOAuth_def Let_def await_simps sample_defs truthy_str_def ok_def n)
qed

text \<open>
  C1, as amended. When the first attempt completes with status 401 and the
  \<^verbatim>\<open>WWW-Authenticate\<close> header is absent, or the parser yields no challenge for it, no
  orchestrator makes a further call but the parser call for a header that is not empty:
  no nonce, signer or token exchange call. \<^verbatim>\<open>authFetch\<close> (both copies) and the
  function made by \<^verbatim>\<open>createAuthFetch\<close> return that 401 response as it is.
  \<^verbatim>\<open>fetchWithOAuth\<close> fails: with \<^verbatim>\<open>Missing WWW-Authenticate header in 401 response\<close>
  when the header is absent or empty, and with
  \<^verbatim>\<open>Failed to parse WWW-Authenticate challenge\<close> otherwise.
\<close>

theorem no_challenge_401:
  assumes "status r = 401" and "no_challenge r"
  shows "(events_of (authFetch e input options fetchInit w) = HttpCall req (Inr r) # rest \<longrightarrow>
            result_of (authFetch e input options fetchInit w) = Inr r \<and> rest = parser_calls r)
       \<and> (events_of (bound_authFetch e options input init s) = HttpCall req (Inr r) # rest \<longrightarrow>
            result_of (bound_authFetch e options input init s) = Inr r \<and> rest = parser_calls r)
       \<and> (events_of (authFetch_oneshot e input options fetchInit w) = HttpCall req (Inr r) # rest \<longrightarrow>
            result_of (authFetch_oneshot e input options fetchInit w) = Inr r
            \<and> rest = parser_calls r)
       \<and> (events_of (fetchWithOAuth e url sign addr existing w) = HttpCall req (Inr r) # rest \<longrightarrow>
            rest = parser_calls r \<and>
            result_of (fetchWithOAuth e url sign addr existing w) =
              Inl (Error (if rest = [] then ''Missing WWW-Authenticate header in 401 response''
                          else ''Failed to parse WWW-Authenticate challenge'')))"
  unfolding run_authFetch_oneshot
  by (intro conjI; rule impI)
     (rule authFetch_no_challenge, assumption, (rule assms)+,
      rule bound_authFetch_no_challenge, assumption, (rule assms)+,
      rule bound_authFetch_no_challenge, assumption, (rule assms)+,
      rule fetchWithOAuth_no_challenge, assumption, (rule assms)+)

theorem no_challenge_401_witness:
  "status (challenge_401 (Some ''Basic realm=\"kv\"'')) = 401
   \<and> no_challenge (challenge_401 (Some ''Basic realm=\"kv\"''))
   \<and> events_of (authFetch (world_with (challenge_401 (Some ''Basic realm=\"kv\"'')))
        (UrlString sample_url) sample_options sample_init ())
       = [HttpCall (Resource (UrlString sample_url) (Some ()) Map.empty)
            (Inr (challenge_401 (Some ''Basic realm=\"kv\"''))),
          ParseCall ''Basic realm=\"kv\"'']
   \<and> result_of (authFetch (world_with (challenge_401 (Some ''Basic realm=\"kv\"'')))
        (UrlString sample_url) sample_options sample_init ())
       = Inr (challenge_401 (Some ''Basic realm=\"kv\"''))"
proof -
  have p: "parseWWWAuthenticateChallenge ''Basic realm=\"kv\"'' = None" by code_simp
  have s: "status (challenge_401 (Some ''Basic realm=\"kv\"'')) = 401"
    by (simp add: challenge_401_def)
  have n: "no_challenge (challenge_401 (Some ''Basic realm=\"kv\"''))"
    by (simp add: no_challenge_def challenge_401_def p)
  have c: "parser_calls (challenge_401 (Some ''Basic realm=\"kv\"''))
             = [ParseCall ''Basic realm=\"kv\"'']"
    by (simp add: parser_calls_def challenge_401_def)
  have ev: "events_of (authFetch (world_with (challenge_401 (Some ''Basic realm=\"kv\"'')))
        (UrlString sample_url) sample_options sample_init ())
       = HttpCall (Resource (UrlString sample_url) (Some ()) Map.empty)
            (Inr (challenge_401 (Some ''Basic realm=\"kv\"''))) # [ParseCall ''Basic realm=\"kv\"'']"
    by (simp add: authFetch_def Let_def await_simps sample_defs truthy_str_def p)
  from no_challenge_401 [OF s n, THEN conjunct1, rule_format, OF ev] s n ev
  show ?thesis by simp
qed

text \<open>
  The claim as stated fails for \<^verbatim>\<open>fetchWithOAuth\<close>: a 401 without a
  \<^verbatim>\<open>WWW-Authenticate\<close> header is not returned; the call raises an error.
\<close>

theorem fetchWithOAuth_no_challenge_counterexample:
  "status (challenge_401 None) = 401
   \<and> no_challenge (challenge_401 None)
   \<and> events_of (fetchWithOAuth (world_with (challenge_401 None)) sample_url sample_signer ''0xA'' None ())
       = [HttpCall (Resource (UrlString sample_url) None Map.empty) (Inr (challenge_401 None))]
   \<and> result_of (fetchWithOAuth (world_with (challenge_401 None)) sample_url sample_signer ''0xA'' None ())
       = Inl (Error ''Missing WWW-Authenticate header in 401 response'')"
  by (simp add: fetchWithOAuth_def Let_def await_simps sample_defs truthy_str_def no_challenge_def)

text \<open>
  C6. When the first attempt completes with status 401 and the parser yields a challenge
  whose signing scheme is not \<^verbatim>\<open>eip4361\<close>, every orchestrator fails at once with the
  error \<^verbatim>\<open>Unsupported signing scheme: <scheme>\<close>, and the only call after the first
  request is the parser call: no nonce fetch, no signer call, no token exchange.
\<close>

theorem unsupported_scheme_fails:
  assumes "status r = 401" and "www_authenticate r = Some h"
    and "parseWWWAuthenticateChallenge h = Some c" and "signingScheme c \<noteq> ''eip4361''"
  shows "(events_of (authFetch e input options fetchInit w) = HttpCall req (Inr r) # rest \<longrightarrow>
            result_of (authFetch e input options fetchInit w) = Inl (UnsupportedScheme (signingScheme c))
            \<and> rest = [ParseCall h])
       \<and> (events_of (bound_authFetch e options input init s) = HttpCall req (Inr r) # rest \<longrightarrow>
            result_of (bound_authFetch e options input init s) = Inl (UnsupportedScheme (signingScheme c))
            \<and> rest = [ParseCall h])
       \<and> (events_of (authFetch_oneshot e input options fetchInit w) = HttpCall req (Inr r) # rest \<longrightarrow>
            result_of (authFetch_oneshot e input options fetchInit w)
              = Inl (UnsupportedScheme (signingScheme c))
            \<and> rest = [ParseCall h])
       \<and> (events_of (fetchWithOAuth e url sign addr existing w) = HttpCall req (Inr r) # rest \<longrightarrow>
            result_of (fetchWithOAuth e url sign addr existing w)
              = Inl (UnsupportedScheme (signingScheme c))
            \<and> rest = [ParseCall h])"
  unfolding run_authFetch_oneshot
  by (intro conjI; rule impI)
     (rule authFetch_unsupported, assumption, (rule assms)+,
      rule bound_authFetch_unsupported, assumption, (rule assms)+,
      rule bound_authFetch_unsupported, assumption, (rule assms)+,
      rule fetchWithOAuth_unsupported, assumption, (rule assms)+)

lemma parse_unknown_scheme:
  "parseWWWAuthenticateChallenge unknown_scheme_challenge
     = Some \<lparr> realm = ''kv'', scope = ''a'', tokenUri = ''https://as.example/token'',
               chainId = Num 1, signingScheme = ''unknownscheme'' \<rparr>"
  by code_simp

theorem unsupported_scheme_fails_witness:
  "events_of (fetchWithOAuth (world_with (challenge_401 (Some unknown_scheme_challenge)))
        sample_url sample_signer ''0xA'' None ())
       = [HttpCall (Resource (UrlString sample_url) None Map.empty)
            (Inr (challenge_401 (Some unknown_scheme_challenge))),
          ParseCall unknown_scheme_challenge]
   \<and> result_of (fetchWithOAuth (world_with (challenge_401 (Some unknown_scheme_challenge)))
        sample_url sample_signer ''0xA'' None ())
       = Inl (Error ''Unsupported signing scheme: unknownscheme'')"
proof -
  let ?r = "challenge_401 (Some unknown_scheme_challenge)"
  let ?c = "\<lparr> realm = ''kv'', scope = ''a'', tokenUri = ''https://as.example/token'',
               chainId = Num 1, signingScheme = ''unknownscheme'' \<rparr>"
  have s: "status ?r = 401" and h: "www_authenticate ?r = Some unknown_scheme_challenge"
    by (simp_all add: challenge_401_def)
  have d: "signingScheme ?c \<noteq> ''eip4361''" by simp
  have ne: "unknown_scheme_challenge \<noteq> []" by (simp add: unknown_scheme_challenge_def)
  have ev: "events_of (fetchWithOAuth (world_with ?r) sample_url sample_signer ''0xA'' None ())
       = HttpCall (Resource (UrlString sample_url) None Map.empty) (Inr ?r)
           # [ParseCall unknown_scheme_challenge]"
    by (simp add: fetchWithOAuth_def Let_def await_simps sample_defs truthy_str_def
          parse_unknown_scheme ne)
  from unsupported_scheme_fails [OF s h parse_unknown_scheme d,
      THEN conjunct2, THEN conjunct2, THEN conjunct2, rule_format, OF ev] ev
  show ?thesis by (simp add: UnsupportedScheme_def)
qed


section \<open>The calls made for an accepted challenge\<close>

lemma events_exchangeToken_oauth:
  "events_of (exchangeToken_oauth e u m sg sc w) =
     [HttpCall (PostJson u \<lparr>grant_type = ''eth_signature'', message = m, signature = sg, body_scope = sc\<rparr>)
        (fst (fetch e (PostJson u \<lparr>grant_type = ''eth_signature'', message = m, signature = sg, body_scope = sc\<rparr>) w))]"
  by (simp add: exchangeToken_oauth_def Let_def await_simps split: sum.splits)

lemma events_buildSiweMessage_oauth:
  "ev \<in> set (events_of (buildSiweMessage_oauth e a n scopes u w)) \<Longrightarrow>
    \<exists>args out. ev = SiweCall args out \<and> siwe_chainId args = Num 1
       \<and> resources args = map ((@) ''urn:oauth:scope:'') scopes"
  by (auto simp: buildSiweMessage_oauth_def CHAIN_ID_def Let_def split: option.splits)

lemmas flow_events = events_fetchNonce events_fetchNonce_oauth events_exchangeToken
  events_exchangeToken_oauth

lemma authFetch_flow_siwe:
  assumes "SiweCall args out \<in> set (events_of (authFetch_flow e input options fetchInit c s))"
  shows "resources args = map ((@) ''urn:oauth:scope:'') (split_on CHR '' '' (scope c))
         \<and> siwe_chainId args = (if truthy_num (chainId c) then chainId c
              else case chainId_option options of None \<Rightarrow> Num 1 | Some n \<Rightarrow> n)"
  using assms unfolding authFetch_flow_def
  by (auto elim!: in_events_awaitE dest!: events_buildSiweMessage events_notify simp: flow_events)

lemma authFetch_flow_exchange:
  assumes "HttpCall (PostJson u b) out \<in> set (events_of (authFetch_flow e input options fetchInit c s))"
  shows "u = tokenUri c \<and> body_scope b = scope c \<and> grant_type b = ''eth_signature''"
  using assms unfolding authFetch_flow_def
  by (auto elim!: in_events_awaitE dest!: events_buildSiweMessage events_notify simp: flow_events)

lemma authFetch_flow_no_parse:
  "ParseCall h \<notin> set (events_of (authFetch_flow e input options fetchInit c s))"
  unfolding authFetch_flow_def
  by (auto elim!: in_events_awaitE dest!: events_buildSiweMessage events_notify simp: flow_events)

lemma bound_authFetch_flow_siwe:
  assumes "SiweCall args out \<in> set (events_of (bound_authFetch_flow e options input init c s))"
  shows "resources args = map ((@) ''urn:oauth:scope:'') (split_on CHR '' '' (scope c))
         \<and> siwe_chainId args = (if truthy_num (chainId c) then chainId c
              else case chainId_option options of None \<Rightarrow> Num 1 | Some n \<Rightarrow> n)"
  using assms unfolding bound_authFetch_flow_def
  by (auto elim!: in_events_awaitE dest!: events_buildSiweMessage events_notify simp: flow_events)

lemma bound_authFetch_flow_exchange:
  assumes "HttpCall (PostJson u b) out \<in> set (events_of (bound_authFetch_flow e options input init c s))"
  shows "u = tokenUri c \<and> body_scope b = scope c \<and> grant_type b = ''eth_signature''"
  using assms unfolding bound_authFetch_flow_def
  by (auto elim!: in_events_awaitE dest!: events_buildSiweMessage events_notify simp: flow_events)

lemma bound_authFetch_flow_no_parse:
  "ParseCall h \<notin> set (events_of (bound_authFetch_flow e options input init c s))"
  unfolding bound_authFetch_flow_def
  by (auto elim!: in_events_awaitE dest!: events_buildSiweMessage events_notify simp: flow_events)

lemma fetchWithOAuth_flow_siwe:
  assumes "SiweCall args out \<in> set (events_of (fetchWithOAuth_flow e url sign addr c s))"
  shows "resources args = map ((@) ''urn:oauth:scope:'') (split_on CHR '' '' (scope c))
         \<and> siwe_chainId args = Num 1"
  using assms unfolding fetchWithOAuth_flow_def
  by (auto elim!: in_events_awaitE dest!: events_buildSiweMessage_oauth simp: flow_events
        split: if_splits)

lemma fetchWithOAuth_flow_exchange:
  assumes "HttpCall (PostJson u b) out \<in> set (events_of (fetchWithOAuth_flow e url sign addr c s))"
  shows "u = tokenUri c \<and> body_scope b = scope c \<and> grant_type b = ''eth_signature''"
  using assms unfolding fetchWithOAuth_flow_def
  by (auto elim!: in_events_awaitE dest!: events_buildSiweMessage_oauth simp: flow_events
        split: if_splits)

lemma fetchWithOAuth_flow_no_parse_token:
  "ParseCall h \<notin> set (events_of (fetchWithOAuth_flow e url sign addr c s))
   \<and> TokenCall a b out \<notin> set (events_of (fetchWithOAuth_flow e url sign addr c s))"
  unfolding fetchWithOAuth_flow_def
  by (auto elim!: in_events_awaitE dest!: events_buildSiweMessage_oauth simp: flow_events
        split: if_splits)


lemma gated_parse:
  assumes "ParseCall h \<in> set (gated req x fl)" and "\<And>c. ParseCall h \<notin> set (fl c)"
  shows "\<exists>r. x = Inr r \<and> status r = 401 \<and> www_authenticate r = Some h"
  using assms
  by (auto simp: gated_def parser_calls_def split: sum.splits if_splits option.splits)

lemma gated_flow_event:
  assumes "ev \<in> set (gated req x fl)" and "ev \<noteq> HttpCall req x" and "\<And>h. ev \<noteq> ParseCall h"
  shows "\<exists>r c. x = Inr r \<and> accepted r = Some c \<and> ev \<in> set (fl c)"
proof (cases x)
  case (Inl err)
  with assms show ?thesis by (simp add: gated_def)
next
  case (Inr r)
  show ?thesis
  proof (cases "accepted r")
    case None
    with assms Inr show ?thesis
      by (auto simp: gated_def parser_calls_def split: if_splits option.splits)
  next
    case (Some c)
    with assms Inr show ?thesis
      by (auto simp: gated_def parser_calls_def split: if_splits option.splits)
  qed
qed

lemma gated_challenge_event:
  assumes "ParseCall h \<in> set (gated req x fl)" and "parseWWWAuthenticateChallenge h = Some c"
    and "ev \<in> set (gated req x fl)" and "ev \<noteq> HttpCall req x" and "\<And>h. ev \<noteq> ParseCall h"
    and "\<And>c. ParseCall h \<notin> set (fl c)"
  shows "ev \<in> set (fl c)"
proof -
  from gated_parse [OF assms(1) assms(6)] obtain r where
    r: "x = Inr r" "status r = 401" "www_authenticate r = Some h" by blast
  from gated_flow_event [OF assms(3) assms(4) assms(5)] obtain r' c' where
    c: "x = Inr r'" "accepted r' = Some c'" "ev \<in> set (fl c')" by blast
  from r c assms(2) have "c' = c" by (auto simp: accepted_def split: if_splits)
  with c show ?thesis by simp
qed

lemma split_on_join: "join_with [d] (split_on d s) = s"
proof (induction s)
  case Nil
  show ?case by simp
next
  case (Cons c cs)
  show ?case
  proof (cases "c = d")
    case True
    with Cons show ?thesis by (cases "split_on d cs") auto
  next
    case False
    with Cons show ?thesis
      by (cases "split_on d cs"; cases "tl (split_on d cs)") auto
  qed
qed

lemma split_on_pieces: "p \<in> set (split_on d s) \<Longrightarrow> d \<notin> set p"
  by (induction s arbitrary: p) (auto split: if_splits list.splits)

lemma gated_list_all:
  assumes "ParseCall h \<in> set (gated req x fl)"
    and "parseWWWAuthenticateChallenge h = Some c"
    and "\<And>c. ParseCall h \<notin> set (fl c)"
    and "\<And>ev. ev \<in> set (fl c) \<Longrightarrow> P ev"
    and "P (HttpCall req x)" and "\<And>h. P (ParseCall h)"
  shows "list_all P (gated req x fl)"
  unfolding list_all_iff
proof
  fix ev
  assume ev: "ev \<in> set (gated req x fl)"
  show "P ev"
  proof (cases "ev = HttpCall req x \<or> (\<exists>h. ev = ParseCall h)")
    case True
    then show ?thesis using assms(5) assms(6) by auto
  next
    case False
    then have "ev \<in> set (fl c)"
      using gated_challenge_event [OF assms(1) assms(2) ev _ _ assms(3)] by blast
    then show ?thesis by (rule assms(4))
  qed
qed

lemma gated_list_all_any:
  assumes "\<And>c ev. ev \<in> set (fl c) \<Longrightarrow> P ev"
    and "P (HttpCall req x)" and "\<And>h. P (ParseCall h)"
  shows "list_all P (gated req x fl)"
  unfolding list_all_iff
proof
  fix ev
  assume ev: "ev \<in> set (gated req x fl)"
  show "P ev"
  proof (cases "ev = HttpCall req x \<or> (\<exists>h. ev = ParseCall h)")
    case True
    then show ?thesis using assms(2) assms(3) by auto
  next
    case False
    then obtain c where "ev \<in> set (fl c)"
      using gated_flow_event [OF ev] by blast
    then show ?thesis by (rule assms(1))
  qed
qed

lemma uses_scopeI:
  assumes "\<And>args out. ev = SiweCall args out \<Longrightarrow>
             resources args = map ((@) ''urn:oauth:scope:'') (split_on CHR '' '' (scope c))"
    and "\<And>u b out. ev = HttpCall (PostJson u b) out \<Longrightarrow> u = tokenUri c \<and> body_scope b = scope c"
  shows "uses_scope c ev"
  by (cases "(c, ev)" rule: uses_scope.cases) (use assms in auto)

lemma uses_chainI:
  assumes "\<And>args out. ev = SiweCall args out \<Longrightarrow> siwe_chainId args = n"
  shows "uses_chain n ev"
  by (cases "(n, ev)" rule: uses_chain.cases) (use assms in auto)

lemma authFetch_flow_uses_scope:
  "ev \<in> set (events_of (authFetch_flow e input options fetchInit c s)) \<Longrightarrow> uses_scope c ev"
  by (rule uses_scopeI) (auto dest: authFetch_flow_siwe authFetch_flow_exchange)

lemma bound_authFetch_flow_uses_scope:
  "ev \<in> set (events_of (bound_authFetch_flow e options input init c s)) \<Longrightarrow> uses_scope c ev"
  by (rule uses_scopeI) (auto dest: bound_authFetch_flow_siwe bound_authFetch_flow_exchange)

lemma fetchWithOAuth_flow_uses_scope:
  "ev \<in> set (events_of (fetchWithOAuth_flow e url sign addr c s)) \<Longrightarrow> uses_scope c ev"
  by (rule uses_scopeI) (auto dest: fetchWithOAuth_flow_siwe fetchWithOAuth_flow_exchange)

lemma authFetch_uses_scope:
  assumes "parseWWWAuthenticateChallenge h = Some c"
    and "ParseCall h \<in> set (events_of (authFetch e input options fetchInit w))"
  shows "list_all (uses_scope c) (events_of (authFetch e input options fetchInit w))"
proof -
  from assms(2) have "events_of (authFetch e input options fetchInit w) \<noteq> []" by auto
  then obtain hs where hs: "authFetch_headers options fetchInit = Inr hs"
    by (rule authFetch_headersE)
  show ?thesis
    using assms(2) unfolding authFetch_gated [OF hs]
    by (rule gated_list_all [OF _ assms(1)])
       (simp_all add: authFetch_flow_no_parse authFetch_flow_uses_scope)
qed

lemma bound_authFetch_uses_scope:
  assumes "parseWWWAuthenticateChallenge h = Some c"
    and "ParseCall h \<in> set (events_of (bound_authFetch e options input init s))"
  shows "list_all (uses_scope c) (events_of (bound_authFetch e options input init s))"
proof -
  from assms(2) have "events_of (bound_authFetch e options input init s) \<noteq> []" by auto
  then obtain hs where hs: "bound_authFetch_headers init (fst s) = Inr hs"
    by (rule bound_authFetch_headersE)
  show ?thesis
    using assms(2) unfolding bound_authFetch_gated [OF hs]
    by (rule gated_list_all [OF _ assms(1)])
       (simp_all add: bound_authFetch_flow_no_parse bound_authFetch_flow_uses_scope)
qed

lemma fetchWithOAuth_uses_scope:
  assumes "parseWWWAuthenticateChallenge h = Some c"
    and "ParseCall h \<in> set (events_of (fetchWithOAuth e url sign addr existing w))"
  shows "list_all (uses_scope c) (events_of (fetchWithOAuth e url sign addr existing w))"
proof -
  from assms(2) have "events_of (fetchWithOAuth e url sign addr existing w) \<noteq> []" by auto
  then obtain hs where hs: "fetchWithOAuth_headers existing = Inr hs"
    by (rule fetchWithOAuth_headersE)
  show ?thesis
    using assms(2) unfolding fetchWithOAuth_gated [OF hs]
    by (rule gated_list_all [OF _ assms(1)])
       (simp_all add: fetchWithOAuth_flow_no_parse_token fetchWithOAuth_flow_uses_scope)
qed

lemma authFetch_uses_chain:
  assumes "parseWWWAuthenticateChallenge h = Some c" and "\<not> truthy_num (chainId c)"
    and "ParseCall h \<in> set (events_of (authFetch e input options fetchInit w))"
  shows "list_all (uses_chain (case chainId_option options of None \<Rightarrow> Num 1 | Some n \<Rightarrow> n))
           (events_of (authFetch e input options fetchInit w))"
proof -
  from assms(3) have "events_of (authFetch e input options fetchInit w) \<noteq> []" by auto
  then obtain hs where hs: "authFetch_headers options fetchInit = Inr hs"
    by (rule authFetch_headersE)
  show ?thesis
    using assms(3) unfolding authFetch_gated [OF hs]
    by (rule gated_list_all [OF _ assms(1)])
       (auto simp: authFetch_flow_no_parse assms(2)
          intro!: uses_chainI dest!: authFetch_flow_siwe)
qed

lemma bound_authFetch_uses_chain:
  assumes "parseWWWAuthenticateChallenge h = Some c" and "\<not> truthy_num (chainId c)"
    and "ParseCall h \<in> set (events_of (bound_authFetch e options input init s))"
  shows "list_all (uses_chain (case chainId_option options of None \<Rightarrow> Num 1 | Some n \<Rightarrow> n))
           (events_of (bound_authFetch e options input init s))"
proof -
  from assms(3) have "events_of (bound_authFetch e options input init s) \<noteq> []" by auto
  then obtain hs where hs: "bound_authFetch_headers init (fst s) = Inr hs"
    by (rule bound_authFetch_headersE)
  show ?thesis
    using assms(3) unfolding bound_authFetch_gated [OF hs]
    by (rule gated_list_all [OF _ assms(1)])
       (auto simp: bound_authFetch_flow_no_parse assms(2)
          intro!: uses_chainI dest!: bound_authFetch_flow_siwe)
qed

lemma fetchWithOAuth_uses_chain:
  "list_all (uses_chain (Num 1)) (events_of (fetchWithOAuth e url sign addr existing w))"
proof (cases "fetchWithOAuth_headers existing")
  case (Inl err)
  then show ?thesis by (simp add: fetchWithOAuth_refused)
next
  case (Inr hs)
  show ?thesis
    unfolding fetchWithOAuth_gated [OF Inr]
    by (rule gated_list_all_any)
       (auto intro!: uses_chainI dest!: fetchWithOAuth_flow_siwe)
qed

section \<open>Runs in the sample world\<close>

lemma parse_sample: "parseWWWAuthenticateChallenge sample_challenge = Some sample_parsed"
  by code_simp

lemma sample_nonceUrl: "nonceUrl ''https://as.example/token'' = ''https://as.example/nonce''"
  by code_simp

lemma sample_nonceUrl_oauth: "nonceUrl_oauth ''https://as.example/token'' = ''https://as.example/nonce''"
  by code_simp

lemma sample_challenge_nonempty: "sample_challenge \<noteq> []"
  by (simp add: sample_challenge_def)

lemmas sample_simps = sample_env_def sample_defs truthy_str_def truthy_num_def parse_sample
  sample_parsed_def sample_nonceUrl sample_nonceUrl_oauth sample_challenge_nonempty ok_def read_json_def
  fetchNonce_def fetchNonce_oauth_def buildSiweMessage_def buildSiweMessage_oauth_def CHAIN_ID_def
  exchangeToken_def exchangeToken_oauth_def notify_onToken_def to_str_def
  stubborn_env_def stubborn_fetch_def
  sample_trace_def sample_siwe_args_def sample_exchange_def await_simps Let_def

lemma sample_authFetch:
  "events_of (authFetch sample_env (UrlString sample_url) sample_options sample_init ())
     = sample_trace (Resource (UrlString sample_url) (Some ()) Map.empty) (Num 5)
         [TokenCall (Some (JStr ''T1'')) (Some (JStr ''a b'')) (Inr ())]
         (Resource (UrlString sample_url) (Some ()) [''authorization'' \<mapsto> ''Bearer T1''])
         resource_200"
  "result_of (authFetch sample_env (UrlString sample_url) sample_options sample_init ())
     = Inr resource_200"
  by (simp_all add: authFetch_def sample_simps)

lemma sample_fetchWithOAuth:
  "events_of (fetchWithOAuth sample_env sample_url sample_signer ''0xA'' None ())
     = sample_trace (Resource (UrlString sample_url) None Map.empty) (Num 1) []
         (Resource (UrlString sample_url) None [''authorization'' \<mapsto> ''Bearer T1''])
         resource_200"
  "result_of (fetchWithOAuth sample_env sample_url sample_signer ''0xA'' None ())
     = Inr \<lparr> data = JStr ''secret'', token_out = Some (JStr ''T1'') \<rparr>"
  by (simp_all add: fetchWithOAuth_def sample_simps)


lemma sample_parse_call:
  "ParseCall sample_challenge \<in> set (sample_trace first n notified retry final)"
  by (simp add: sample_trace_def)

section \<open>After the token exchange\<close>

lemma after_exchange_parser_calls [simp]:
  "after_exchange (parser_calls r @ evs) = after_exchange evs"
  "after_exchange (parser_calls r) = None"
  by (simp_all add: parser_calls_def split: option.splits)

lemma gated_after_exchange:
  assumes "after_exchange (gated (Resource i rest hs) x fl) = Some p"
  shows "\<exists>r c. x = Inr r \<and> accepted r = Some c \<and> after_exchange (fl c) = Some p"
proof (cases x)
  case (Inl err)
  with assms show ?thesis by (simp add: gated_def)
next
  case (Inr r)
  with assms show ?thesis
    by (cases "accepted r") (auto simp: gated_def split: if_splits)
qed

lemma after_exchange_build [simp]:
  "after_exchange (events_of (buildSiweMessage e a n sc u cid w) @ evs) = after_exchange evs"
  "after_exchange (events_of (buildSiweMessage e a n sc u cid w)) = None"
  by (simp_all add: buildSiweMessage_def Let_def split: option.splits)

lemma after_exchange_build_oauth [simp]:
  "after_exchange (events_of (buildSiweMessage_oauth e a n sc u w) @ evs) = after_exchange evs"
  "after_exchange (events_of (buildSiweMessage_oauth e a n sc u w)) = None"
  by (simp_all add: buildSiweMessage_oauth_def Let_def split: option.splits)

lemma result_exchangeToken:
  "result_of (exchangeToken e u m sg sc w) = Inr tr \<longleftrightarrow>
     (\<exists>x. fst (fetch e (PostJson u \<lparr>grant_type = ''eth_signature'', message = m,
              signature = sg, body_scope = sc\<rparr>) w) = Inr x \<and> ok x \<and> body x = Some tr)"
  by (auto simp: exchangeToken_def Let_def await_simps read_json_def
        split: sum.splits option.splits)

lemma result_exchangeToken_oauth:
  "result_of (exchangeToken_oauth e u m sg sc w) = Inr tr \<longleftrightarrow>
     (\<exists>x. fst (fetch e (PostJson u \<lparr>grant_type = ''eth_signature'', message = m,
              signature = sg, body_scope = sc\<rparr>) w) = Inr x \<and> ok x \<and> body x = Some tr)"
  by (auto simp: exchangeToken_oauth_def Let_def await_simps read_json_def
        split: sum.splits option.splits)

lemma result_exchangeToken_ok:
  "fst (fetch e (PostJson u \<lparr>grant_type = ''eth_signature'', message = m,
              signature = sg, body_scope = sc\<rparr>) w) = Inr x \<Longrightarrow> ok x \<Longrightarrow>
   result_of (exchangeToken e u m sg sc w) = read_json x"
  by (simp add: exchangeToken_def Let_def await_simps)

lemma result_exchangeToken_oauth_ok:
  "fst (fetch e (PostJson u \<lparr>grant_type = ''eth_signature'', message = m,
              signature = sg, body_scope = sc\<rparr>) w) = Inr x \<Longrightarrow> ok x \<Longrightarrow>
   result_of (exchangeToken_oauth e u m sg sc w) = read_json x"
  by (simp add: exchangeToken_oauth_def Let_def await_simps)


lemma js_get_Inr_field: "js_get tr name = Inr v \<Longrightarrow> v = field tr name \<and> tr \<noteq> JNull"
  by (cases tr) (auto simp: field_def)




lemma authFetch_flow_unfold:
  "authFetch_flow e input options fetchInit c =
     await (fetchNonce e (tokenUri c)) (\<lambda>nonce'.
     await (buildSiweMessage e (address options) nonce'
              (split_on CHR '' '' (scope c)) (url_of input) (effective_chainId options c))
       (\<lambda>siweMessage.
     await (call_signMessage (signMessage options) siweMessage) (\<lambda>signature'.
     await (exchangeToken e (tokenUri c) siweMessage signature' (scope c))
       (authFetch_finish e input options fetchInit))))"
  unfolding authFetch_flow_def authFetch_finish_def effective_chainId_def by (rule refl)

lemma bound_authFetch_flow_unfold:
  "bound_authFetch_flow e options input init c =
     await (in_world (fetchNonce e (tokenUri c))) (\<lambda>nonce'.
     await (in_world (buildSiweMessage e (address options) nonce'
              (split_on CHR '' '' (scope c)) (url_of input) (effective_chainId options c)))
       (\<lambda>siweMessage.
     await (in_world (call_signMessage (signMessage options) siweMessage))
       (\<lambda>signature'.
     await (in_world (exchangeToken e (tokenUri c) siweMessage signature' (scope c)))
       (bound_authFetch_finish e options input init))))"
  unfolding bound_authFetch_flow_def bound_authFetch_finish_def effective_chainId_def
  by (rule refl)

lemma fetchWithOAuth_flow_unfold:
  "fetchWithOAuth_flow e url sign address' c =
     await (fetchNonce_oauth e (tokenUri c)) (\<lambda>nonce'.
     await (buildSiweMessage_oauth e address' nonce'
              (split_on CHR '' '' (scope c)) url) (\<lambda>siweMessage.
     await (call_signMessage sign siweMessage) (\<lambda>signature'.
     await (exchangeToken_oauth e (tokenUri c) siweMessage signature' (scope c))
       (fetchWithOAuth_finish e url))))"
  unfolding fetchWithOAuth_flow_def fetchWithOAuth_finish_def by (rule refl)


lemma after_exchange_append_None:
  "after_exchange evs1 = None \<Longrightarrow> after_exchange (evs1 @ evs2) = after_exchange evs2"
  by (induction evs1 rule: after_exchange.induct) simp_all

lemma await_after_exchangeE:
  assumes "after_exchange (events_of (await m f s)) = Some p"
    and "after_exchange (events_of (m s)) = None"
  obtains v where "result_of (m s) = Inr v"
    and "after_exchange (events_of (f v (state_of (m s)))) = Some p"
    and "result_of (await m f s) = result_of (f v (state_of (m s)))"
proof (cases "result_of (m s)")
  case (Inl err)
  with assms show ?thesis by (simp add: events_await)
next
  case (Inr v)
  with assms have "after_exchange (events_of (f v (state_of (m s)))) = Some p"
    by (simp add: events_await after_exchange_append_None)
  moreover have "result_of (await m f s) = result_of (f v (state_of (m s)))"
    using Inr by (simp add: result_await)
  ultimately show ?thesis using Inr that by blast
qed

lemma authFetch_flow_post:
  assumes "after_exchange (events_of (authFetch_flow e input options fetchInit c s)) = Some (out, post)"
    and "post \<noteq> []"
  shows "\<exists>x tr s5. out = Inr x \<and> ok x \<and> body x = Some tr
           \<and> post = events_of (authFetch_finish e input options fetchInit tr s5)
           \<and> result_of (authFetch_flow e input options fetchInit c s)
               = result_of (authFetch_finish e input options fetchInit tr s5)"
  using assms unfolding authFetch_flow_unfold
  apply (erule_tac await_after_exchangeE)
   apply (simp add: flow_events)
  apply (erule_tac await_after_exchangeE)
   apply simp
  apply (erule_tac await_after_exchangeE)
   apply simp
  apply (auto simp: await_simps flow_events result_exchangeToken result_exchangeToken_ok read_json_def
          simp del: split_paired_Ex split: sum.splits)
  done

lemma bound_authFetch_flow_post:
  assumes "after_exchange (events_of (bound_authFetch_flow e options input init c s)) = Some (out, post)"
    and "post \<noteq> []"
  shows "\<exists>x tr s5. out = Inr x \<and> ok x \<and> body x = Some tr
           \<and> post = events_of (bound_authFetch_finish e options input init tr s5)
           \<and> result_of (bound_authFetch_flow e options input init c s)
               = result_of (bound_authFetch_finish e options input init tr s5)"
  using assms unfolding bound_authFetch_flow_unfold
  apply (erule_tac await_after_exchangeE)
   apply (simp add: flow_events)
  apply (erule_tac await_after_exchangeE)
   apply simp
  apply (erule_tac await_after_exchangeE)
   apply simp
  apply (auto simp: await_simps flow_events result_exchangeToken result_exchangeToken_ok read_json_def
          simp del: split_paired_Ex split: sum.splits)
  done

lemma fetchWithOAuth_flow_post:
  assumes "after_exchange (events_of (fetchWithOAuth_flow e url sign addr c s)) = Some (out, post)"
    and "post \<noteq> []"
  shows "\<exists>x tr s5. out = Inr x \<and> ok x \<and> body x = Some tr
           \<and> post = events_of (fetchWithOAuth_finish e url tr s5)
           \<and> result_of (fetchWithOAuth_flow e url sign addr c s)
               = result_of (fetchWithOAuth_finish e url tr s5)"
  using assms unfolding fetchWithOAuth_flow_unfold
  apply (erule_tac await_after_exchangeE)
   apply (simp add: flow_events)
  apply (erule_tac await_after_exchangeE)
   apply simp
  apply (erule_tac await_after_exchangeE)
   apply simp
  apply (auto simp: await_simps flow_events result_exchangeToken_oauth result_exchangeToken_oauth_ok
          read_json_def simp del: split_paired_Ex split: sum.splits)
  done

lemma authFetch_finish_result:
  assumes "last (events_of (authFetch_finish e input options fetchInit tr s)) = HttpCall req (Inr y)"
    and "events_of (authFetch_finish e input options fetchInit tr s) \<noteq> []"
  shows "result_of (authFetch_finish e input options fetchInit tr s) = Inr y"
  using assms unfolding authFetch_finish_def notify_onToken_def
  by (auto simp: await_simps split: sum.splits option.splits if_splits)

lemma bound_authFetch_finish_result:
  assumes "last (events_of (bound_authFetch_finish e options input init tr s)) = HttpCall req (Inr y)"
    and "events_of (bound_authFetch_finish e options input init tr s) \<noteq> []"
  shows "result_of (bound_authFetch_finish e options input init tr s) = Inr y"
  using assms unfolding bound_authFetch_finish_def notify_onToken_def
  by (auto simp: await_simps split: sum.splits option.splits if_splits)

lemma fetchWithOAuth_finish_result:
  assumes "last (events_of (fetchWithOAuth_finish e url tr s)) = HttpCall req (Inr y)"
    and "events_of (fetchWithOAuth_finish e url tr s) \<noteq> []"
  shows "result_of (fetchWithOAuth_finish e url tr s) =
           (if ok y
            then (case body y of
                    None \<Rightarrow> Inl SyntaxError
                  | Some d \<Rightarrow> Inr \<lparr> data = d, token_out = field tr ''access_token'' \<rparr>)
            else Inl (Error (''Request failed after auth: '' @ string_of_nat (status y))))"
  using assms unfolding fetchWithOAuth_finish_def
  by (auto simp: await_simps read_json_def split: sum.splits option.splits if_splits
        dest!: js_get_Inr_field)



lemma after_exchange_nonempty: "after_exchange evs = Some p \<Longrightarrow> evs \<noteq> []"
  by auto




lemma authFetch_retry_result:
  assumes "after_exchange (events_of (authFetch e input options fetchInit w)) = Some (out, post)"
    and "post \<noteq> []" and "last post = HttpCall req (Inr y)"
  shows "result_of (authFetch e input options fetchInit w) = Inr y"
proof -
  from after_exchange_nonempty [OF assms(1)] obtain hs where
    hs: "authFetch_headers options fetchInit = Inr hs"
    by (rule authFetch_headersE)
  let ?s1 = "snd (fetch e (Resource input (Some (other fetchInit)) hs) w)"
  from assms(1) obtain r c where
    r: "fst (fetch e (Resource input (Some (other fetchInit)) hs) w) = Inr r"
    and c: "accepted r = Some c"
    and a: "after_exchange (events_of (authFetch_flow e input options fetchInit c ?s1))
              = Some (out, post)"
    unfolding authFetch_gated [OF hs]
    by (auto dest!: gated_after_exchange)
  from authFetch_flow_post [OF a assms(2)] obtain tr s5 where
    p: "post = events_of (authFetch_finish e input options fetchInit tr s5)"
    and f: "result_of (authFetch_flow e input options fetchInit c ?s1)
              = result_of (authFetch_finish e input options fetchInit tr s5)"
    by blast
  have "result_of (authFetch_finish e input options fetchInit tr s5) = Inr y"
    using assms(2,3) unfolding p by (rule authFetch_finish_result [rotated])
  with f authFetch_accepted_result [OF hs r c] show ?thesis by simp
qed

lemma bound_authFetch_retry_result:
  assumes "after_exchange (events_of (bound_authFetch e options input init s)) = Some (out, post)"
    and "post \<noteq> []" and "last post = HttpCall req (Inr y)"
  shows "result_of (bound_authFetch e options input init s) = Inr y"
proof -
  from after_exchange_nonempty [OF assms(1)] obtain hs where
    hs: "bound_authFetch_headers init (fst s) = Inr hs"
    by (rule bound_authFetch_headersE)
  let ?s1 = "(fst s, snd (fetch e (Resource input (map_option other init) hs) (snd s)))"
  from assms(1) obtain r c where
    r: "fst (fetch e (Resource input (map_option other init) hs) (snd s)) = Inr r"
    and c: "accepted r = Some c"
    and a: "after_exchange (events_of (bound_authFetch_flow e options input init c ?s1))
              = Some (out, post)"
    unfolding bound_authFetch_gated [OF hs]
    by (auto dest!: gated_after_exchange)
  from bound_authFetch_flow_post [OF a assms(2)] obtain tr s5 where
    p: "post = events_of (bound_authFetch_finish e options input init tr s5)"
    and f: "result_of (bound_authFetch_flow e options input init c ?s1)
              = result_of (bound_authFetch_finish e options input init tr s5)"
    by blast
  have "result_of (bound_authFetch_finish e options input init tr s5) = Inr y"
    using assms(2,3) unfolding p by (rule bound_authFetch_finish_result [rotated])
  with f bound_authFetch_accepted_result [OF hs r c] show ?thesis by simp
qed

lemma fetchWithOAuth_retry_result:
  assumes "after_exchange (events_of (fetchWithOAuth e url sign addr existing w)) = Some (out, post)"
    and "post \<noteq> []" and "last post = HttpCall req (Inr y)"
  shows "result_of (fetchWithOAuth e url sign addr existing w) =
           (if ok y
            then (case body y of
                    None \<Rightarrow> Inl SyntaxError
                  | Some d \<Rightarrow> Inr \<lparr> data = d, token_out = exchanged_token out \<rparr>)
            else Inl (Error (''Request failed after auth: '' @ string_of_nat (status y))))"
proof -
  from after_exchange_nonempty [OF assms(1)] obtain hs where
    hs: "fetchWithOAuth_headers existing = Inr hs"
    by (rule fetchWithOAuth_headersE)
  let ?s1 = "snd (fetch e (Resource (UrlString url) None hs) w)"
  from assms(1) obtain r c where
    r: "fst (fetch e (Resource (UrlString url) None hs) w) = Inr r"
    and c: "accepted r = Some c"
    and a: "after_exchange (events_of (fetchWithOAuth_flow e url sign addr c ?s1))
              = Some (out, post)"
    unfolding fetchWithOAuth_gated [OF hs]
    by (auto dest!: gated_after_exchange)
  from fetchWithOAuth_flow_post [OF a assms(2)] obtain x tr s5 where
    o: "out = Inr x" "body x = Some tr"
    and p: "post = events_of (fetchWithOAuth_finish e url tr s5)"
    and f: "result_of (fetchWithOAuth_flow e url sign addr c ?s1)
              = result_of (fetchWithOAuth_finish e url tr s5)"
    by blast
  have t: "exchanged_token out = field tr ''access_token''"
    using o by (simp add: exchanged_token_def)
  have "result_of (fetchWithOAuth_finish e url tr s5) =
           (if ok y
            then (case body y of
                    None \<Rightarrow> Inl SyntaxError
                  | Some d \<Rightarrow> Inr \<lparr> data = d, token_out = field tr ''access_token'' \<rparr>)
            else Inl (Error (''Request failed after auth: '' @ string_of_nat (status y))))"
    using assms(2,3) unfolding p by (rule fetchWithOAuth_finish_result [rotated])
  with f fetchWithOAuth_accepted_result [OF hs r c] show ?thesis unfolding t by simp
qed

lemma after_exchange_sample_trace:
  "after_exchange (sample_trace (Resource i rest hs) n notified retry final)
     = Some (Inr token_200, notified @ [HttpCall retry (Inr final)])"
  by (simp add: sample_trace_def sample_exchange_def)

lemma stubborn_authFetch:
  "events_of (authFetch stubborn_env (UrlString sample_url) sample_options sample_init ())
     = sample_trace (Resource (UrlString sample_url) (Some ()) Map.empty) (Num 5)
         [TokenCall (Some (JStr ''T1'')) (Some (JStr ''a b'')) (Inr ())]
         (Resource (UrlString sample_url) (Some ()) [''authorization'' \<mapsto> ''Bearer T1''])
         (challenge_401 (Some sample_challenge))"
  by (simp add: authFetch_def sample_simps)

lemma stubborn_fetchWithOAuth:
  "events_of (fetchWithOAuth stubborn_env sample_url sample_signer ''0xA'' None ())
     = sample_trace (Resource (UrlString sample_url) None Map.empty) (Num 1) []
         (Resource (UrlString sample_url) None [''authorization'' \<mapsto> ''Bearer T1''])
         (challenge_401 (Some sample_challenge))"
  "result_of (fetchWithOAuth stubborn_env sample_url sample_signer ''0xA'' None ())
     = Inl (Error ''Request failed after auth: 401'')"
proof -
  have n: "string_of_nat 401 = ''401''" by code_simp
  show "events_of (fetchWithOAuth stubborn_env sample_url sample_signer ''0xA'' None ())
     = sample_trace (Resource (UrlString sample_url) None Map.empty) (Num 1) []
         (Resource (UrlString sample_url) None [''authorization'' \<mapsto> ''Bearer T1''])
         (challenge_401 (Some sample_challenge))"
    by (simp add: fetchWithOAuth_def sample_simps)
  show "result_of (fetchWithOAuth stubborn_env sample_url sample_signer ''0xA'' None ())
     = Inl (Error ''Request failed after auth: 401'')"
    by (simp add: fetchWithOAuth_def sample_simps n)
qed










text \<open>
  C3, as amended. When a run made the token exchange request and its last call is a
  request that completed with a response \<open>y\<close> (that request is the retry), then
  \<^verbatim>\<open>authFetch\<close> (both copies) and the function made by \<^verbatim>\<open>createAuthFetch\<close> return
  \<open>y\<close> as it is, whatever its status. \<^verbatim>\<open>fetchWithOAuth\<close> does not: when the status of
  \<open>y\<close> is not successful it fails with \<^verbatim>\<open>Request failed after auth: <status>\<close>;
  otherwise it returns the parsed JSON body of \<open>y\<close> with the exchanged access token, or
  fails with a \<^verbatim>\<open>SyntaxError\<close> when the body is not JSON.
\<close>

theorem retry_response_returned:
  assumes "post \<noteq> []" and "last post = HttpCall req (Inr y)"
  shows "(after_exchange (events_of (authFetch e input options fetchInit w)) = Some (out, post) \<longrightarrow>
            result_of (authFetch e input options fetchInit w) = Inr y)
       \<and> (after_exchange (events_of (bound_authFetch e options input init s)) = Some (out, post) \<longrightarrow>
            result_of (bound_authFetch e options input init s) = Inr y)
       \<and> (after_exchange (events_of (authFetch_oneshot e input options fetchInit w))
              = Some (out, post) \<longrightarrow>
            result_of (authFetch_oneshot e input options fetchInit w) = Inr y)
       \<and> (after_exchange (events_of (fetchWithOAuth e url sign addr existing w)) = Some (out, post) \<longrightarrow>
            result_of (fetchWithOAuth e url sign addr existing w) =
              (if ok y
               then (case body y of
                       None \<Rightarrow> Inl SyntaxError
                     | Some d \<Rightarrow> Inr \<lparr> data = d, token_out = exchanged_token out \<rparr>)
               else Inl (Error (''Request failed after auth: '' @ string_of_nat (status y)))))"
  unfolding run_authFetch_oneshot
  by (intro conjI impI)
     (erule authFetch_retry_result [OF _ assms], erule bound_authFetch_retry_result [OF _ assms],
      erule bound_authFetch_retry_result [OF _ assms], erule fetchWithOAuth_retry_result [OF _ assms])

theorem retry_response_returned_witness:
  "\<not> ok (challenge_401 (Some sample_challenge))
   \<and> events_of (authFetch stubborn_env (UrlString sample_url) sample_options sample_init ())
     = sample_trace (Resource (UrlString sample_url) (Some ()) Map.empty) (Num 5)
         [TokenCall (Some (JStr ''T1'')) (Some (JStr ''a b'')) (Inr ())]
         (Resource (UrlString sample_url) (Some ()) [''authorization'' \<mapsto> ''Bearer T1''])
         (challenge_401 (Some sample_challenge))
   \<and> result_of (authFetch stubborn_env (UrlString sample_url) sample_options sample_init ())
     = Inr (challenge_401 (Some sample_challenge))"
proof -
  let ?retry = "HttpCall (Resource (UrlString sample_url) (Some ())
           [''authorization'' \<mapsto> ''Bearer T1'']) (Inr (challenge_401 (Some sample_challenge)))"
  let ?post = "[TokenCall (Some (JStr ''T1'')) (Some (JStr ''a b'')) (Inr ())] @ [?retry]"
  have n: "?post \<noteq> []" by simp
  have l: "last ?post = ?retry" by simp
  have a: "after_exchange (events_of (authFetch stubborn_env (UrlString sample_url) sample_options
        sample_init ())) = Some (Inr token_200, ?post)"
    unfolding stubborn_authFetch after_exchange_sample_trace by simp
  have k: "\<not> ok (challenge_401 (Some sample_challenge))"
    by (simp add: ok_def challenge_401_def)
  from retry_response_returned [OF n l, THEN conjunct1, rule_format, OF a] k stubborn_authFetch
  show ?thesis by simp
qed

text \<open>
  The claim as stated fails for \<^verbatim>\<open>fetchWithOAuth\<close>: in the world whose resource server
  answers the retry with a 401 again, the exchange succeeds, the retry completes, and the
  call fails with \<^verbatim>\<open>Request failed after auth: 401\<close> instead of returning a response.
\<close>

theorem fetchWithOAuth_retry_counterexample:
  "ok token_200
   \<and> after_exchange (events_of (fetchWithOAuth stubborn_env sample_url sample_signer ''0xA'' None ()))
       = Some (Inr token_200,
           [HttpCall (Resource (UrlString sample_url) None
              [''authorization'' \<mapsto> ''Bearer T1'']) (Inr (challenge_401 (Some sample_challenge)))])
   \<and> result_of (fetchWithOAuth stubborn_env sample_url sample_signer ''0xA'' None ())
       = Inl (Error ''Request failed after auth: 401'')"
  unfolding stubborn_fetchWithOAuth after_exchange_sample_trace
  by (simp add: ok_def token_200_def)

section \<open>Scopes and chain ids\<close>

lemma nonce_of_fetchNonce:
  "nonce_of (fst (fetch e (Get (nonceUrl u)) s))
     = (case result_of (fetchNonce e u s) of Inl err \<Rightarrow> None | Inr v \<Rightarrow> Some v)"
  by (simp add: nonce_of_def fetchNonce_def await_simps read_json_def
        split: sum.splits option.splits)

lemma nonce_of_fetchNonce_oauth:
  "nonce_of (fst (fetch e (Get (nonceUrl_oauth u)) s))
     = (case result_of (fetchNonce_oauth e u s) of Inl err \<Rightarrow> None | Inr v \<Rightarrow> Some v)"
  by (simp add: nonce_of_def fetchNonce_oauth_def await_simps read_json_def
        split: sum.splits option.splits)

lemma authFetch_flow_steps:
  "nonce_step (message_for_chain (address options) (effective_chainId options c) (url_of input) c)
     c (url_host e (url_of input))
     (events_of (authFetch_flow e input options fetchInit c s))"
  unfolding authFetch_flow_unfold
  by (auto simp: events_await result_await events_fetchNonce nonce_of_fetchNonce events_exchangeToken
        buildSiweMessage_def message_for_chain_def message_args_def Let_def
        split: sum.splits option.splits)

lemma bound_authFetch_flow_steps:
  "nonce_step (message_for_chain (address options) (effective_chainId options c) (url_of input) c)
     c (url_host e (url_of input))
     (events_of (bound_authFetch_flow e options input init c s))"
  unfolding bound_authFetch_flow_unfold
  by (auto simp: events_await result_await events_fetchNonce nonce_of_fetchNonce events_exchangeToken
        buildSiweMessage_def message_for_chain_def message_args_def Let_def
        split: sum.splits option.splits)

lemma fetchWithOAuth_flow_steps:
  "nonce_step (message_for_chain addr (Num 1) url c) c (url_host e url)
     (events_of (fetchWithOAuth_flow e url sign addr c s))"
  unfolding fetchWithOAuth_flow_unfold
  by (auto simp: events_await result_await events_fetchNonce_oauth nonce_of_fetchNonce_oauth
        events_exchangeToken_oauth
        buildSiweMessage_oauth_def message_for_chain_def message_args_def Let_def CHAIN_ID_def
        split: sum.splits option.splits)

lemma message_step_mono:
  assumes "message_step P c evs" and "\<And>args. P args \<Longrightarrow> Q args"
  shows "message_step Q c evs"
  using assms by (cases "(P, c, evs)" rule: message_step.cases) auto

lemma nonce_step_mono:
  assumes "nonce_step P c host evs" and "\<And>v d args. P v d args \<Longrightarrow> Q v d args"
  shows "nonce_step Q c host evs"
  using assms
  by (cases "(P, c, host, evs)" rule: nonce_step.cases)
     (auto split: option.splits intro: message_step_mono)

lemma challenge_steps_mono:
  assumes "challenge_steps P c host evs" and "\<And>v d args. P v d args \<Longrightarrow> Q v d args"
  shows "challenge_steps Q c host evs"
  using assms
  by (cases "(P, c, host, evs)" rule: challenge_steps.cases)
     (auto intro: nonce_step_mono)

lemma message_for_chain_scope:
  "message_for_chain addr n url c v d args \<Longrightarrow> message_for_scope addr url c v d args"
  by (simp add: message_for_chain_def message_for_scope_def message_args_def)

lemma gated_challenge_steps:
  assumes "gated req' x fl = HttpCall req (Inr r) # rest" and "accepted r = Some c"
    and "nonce_step P c host (fl c)"
  shows "challenge_steps P c host rest"
  using assms
  by (auto simp: gated_def accepted_def parser_calls_def split: if_splits option.splits sum.splits)

lemma gated_parse_call:
  assumes "gated req' x fl = HttpCall req (Inr r) # rest" and "accepted r = Some c"
  shows "\<exists>h. parseWWWAuthenticateChallenge h = Some c \<and> ParseCall h \<in> set rest"
  using assms
  by (auto simp: gated_def accepted_def parser_calls_def split: if_splits option.splits sum.splits)

lemma falsy_chainId:
  "chainId c = Num 0 \<or> chainId c = NaN \<Longrightarrow>
   effective_chainId options c = (case chainId_option options of None \<Rightarrow> Num 1 | Some n \<Rightarrow> n)
   \<and> \<not> truthy_num (chainId c)"
  by (auto simp: effective_chainId_def truthy_num_def)

lemma authFetch_steps:
  assumes "accepted r = Some c"
    and "events_of (authFetch e input options fetchInit w) = HttpCall req (Inr r) # rest"
  shows "challenge_steps
           (message_for_chain (address options) (effective_chainId options c) (url_of input) c)
           c (url_host e (url_of input)) rest"
    and "\<exists>h. parseWWWAuthenticateChallenge h = Some c \<and> ParseCall h \<in> set rest"
proof -
  from assms(2) obtain hs where hs: "authFetch_headers options fetchInit = Inr hs"
    using authFetch_built [of e input options fetchInit w] by auto
  note g = assms(2) [unfolded authFetch_gated [OF hs]]
  show "challenge_steps
           (message_for_chain (address options) (effective_chainId options c) (url_of input) c)
           c (url_host e (url_of input)) rest"
    by (rule gated_challenge_steps [OF g assms(1)]) (rule authFetch_flow_steps)
  show "\<exists>h. parseWWWAuthenticateChallenge h = Some c \<and> ParseCall h \<in> set rest"
    by (rule gated_parse_call [OF g assms(1)])
qed

lemma bound_authFetch_steps:
  assumes "accepted r = Some c"
    and "events_of (bound_authFetch e options input init s) = HttpCall req (Inr r) # rest"
  shows "challenge_steps
           (message_for_chain (address options) (effective_chainId options c) (url_of input) c)
           c (url_host e (url_of input)) rest"
    and "\<exists>h. parseWWWAuthenticateChallenge h = Some c \<and> ParseCall h \<in> set rest"
proof -
  from assms(2) obtain hs where hs: "bound_authFetch_headers init (fst s) = Inr hs"
    using bound_authFetch_built [of e options input init s] by auto
  note g = assms(2) [unfolded bound_authFetch_gated [OF hs]]
  show "challenge_steps
           (message_for_chain (address options) (effective_chainId options c) (url_of input) c)
           c (url_host e (url_of input)) rest"
    by (rule gated_challenge_steps [OF g assms(1)]) (rule bound_authFetch_flow_steps)
  show "\<exists>h. parseWWWAuthenticateChallenge h = Some c \<and> ParseCall h \<in> set rest"
    by (rule gated_parse_call [OF g assms(1)])
qed

lemma fetchWithOAuth_steps:
  assumes "accepted r = Some c"
    and "events_of (fetchWithOAuth e url sign addr existing w) = HttpCall req (Inr r) # rest"
  shows "challenge_steps (message_for_chain addr (Num 1) url c) c (url_host e url) rest"
    and "\<exists>h. parseWWWAuthenticateChallenge h = Some c \<and> ParseCall h \<in> set rest"
proof -
  from assms(2) obtain hs where hs: "fetchWithOAuth_headers existing = Inr hs"
    using fetchWithOAuth_built [of e url sign addr existing w] by auto
  note g = assms(2) [unfolded fetchWithOAuth_gated [OF hs]]
  show "challenge_steps (message_for_chain addr (Num 1) url c) c (url_host e url) rest"
    by (rule gated_challenge_steps [OF g assms(1)]) (rule fetchWithOAuth_flow_steps)
  show "\<exists>h. parseWWWAuthenticateChallenge h = Some c \<and> ParseCall h \<in> set rest"
    by (rule gated_parse_call [OF g assms(1)])
qed

lemma authFetch_scope_steps:
  assumes "accepted r = Some c"
    and "events_of (authFetch e input options fetchInit w) = HttpCall req (Inr r) # rest"
  shows "challenge_steps
           (message_for_scope (address options) (url_of input) c)
           c (url_host e (url_of input)) rest
         \<and> list_all (uses_scope c) rest"
proof
  show "challenge_steps
          (message_for_scope (address options) (url_of input) c)
          c (url_host e (url_of input)) rest"
    by (rule challenge_steps_mono [OF authFetch_steps(1) [OF assms]]) (rule message_for_chain_scope)
  from authFetch_steps(2) [OF assms] obtain h where
    h: "parseWWWAuthenticateChallenge h = Some c" "ParseCall h \<in> set rest" by blast
  from h(2) have "ParseCall h \<in> set (events_of (authFetch e input options fetchInit w))"
    by (simp add: assms(2))
  from authFetch_uses_scope [OF h(1) this] show "list_all (uses_scope c) rest"
    by (simp add: assms(2))
qed

lemma bound_authFetch_scope_steps:
  assumes "accepted r = Some c"
    and "events_of (bound_authFetch e options input init s) = HttpCall req (Inr r) # rest"
  shows "challenge_steps
           (message_for_scope (address options) (url_of input) c)
           c (url_host e (url_of input)) rest
         \<and> list_all (uses_scope c) rest"
proof
  show "challenge_steps
          (message_for_scope (address options) (url_of input) c)
          c (url_host e (url_of input)) rest"
    by (rule challenge_steps_mono [OF bound_authFetch_steps(1) [OF assms]]) (rule message_for_chain_scope)
  from bound_authFetch_steps(2) [OF assms] obtain h where
    h: "parseWWWAuthenticateChallenge h = Some c" "ParseCall h \<in> set rest" by blast
  from h(2) have "ParseCall h \<in> set (events_of (bound_authFetch e options input init s))"
    by (simp add: assms(2))
  from bound_authFetch_uses_scope [OF h(1) this] show "list_all (uses_scope c) rest"
    by (simp add: assms(2))
qed

lemma fetchWithOAuth_scope_steps:
  assumes "accepted r = Some c"
    and "events_of (fetchWithOAuth e url sign addr existing w) = HttpCall req (Inr r) # rest"
  shows "challenge_steps (message_for_scope addr url c) c (url_host e url) rest
         \<and> list_all (uses_scope c) rest"
proof
  show "challenge_steps (message_for_scope addr url c) c (url_host e url) rest"
    by (rule challenge_steps_mono [OF fetchWithOAuth_steps(1) [OF assms]]) (rule message_for_chain_scope)
  from fetchWithOAuth_steps(2) [OF assms] obtain h where
    h: "parseWWWAuthenticateChallenge h = Some c" "ParseCall h \<in> set rest" by blast
  from h(2) have "ParseCall h \<in> set (events_of (fetchWithOAuth e url sign addr existing w))"
    by (simp add: assms(2))
  from fetchWithOAuth_uses_scope [OF h(1) this] show "list_all (uses_scope c) rest"
    by (simp add: assms(2))
qed

lemma authFetch_chain_steps:
  assumes "accepted r = Some c" and "chainId c = Num 0 \<or> chainId c = NaN"
    and "events_of (authFetch e input options fetchInit w) = HttpCall req (Inr r) # rest"
  shows "challenge_steps
           (message_for_chain (address options)
              (case chainId_option options of None \<Rightarrow> Num 1 | Some n \<Rightarrow> n) (url_of input) c)
           c (url_host e (url_of input)) rest
         \<and> list_all (uses_chain (case chainId_option options of None \<Rightarrow> Num 1 | Some n \<Rightarrow> n)) rest"
proof
  note f = falsy_chainId [OF assms(2), of options]
  show "challenge_steps
           (message_for_chain (address options)
              (case chainId_option options of None \<Rightarrow> Num 1 | Some n \<Rightarrow> n) (url_of input) c)
           c (url_host e (url_of input)) rest"
    using authFetch_steps(1) [OF assms(1,3)] by (simp only: f [THEN conjunct1])
  from authFetch_steps(2) [OF assms(1,3)] obtain h where
    h: "parseWWWAuthenticateChallenge h = Some c" "ParseCall h \<in> set rest" by blast
  from h(2) have "ParseCall h \<in> set (events_of (authFetch e input options fetchInit w))"
    by (simp add: assms(3))
  from authFetch_uses_chain [OF h(1) f [THEN conjunct2] this]
  show "list_all (uses_chain (case chainId_option options of None \<Rightarrow> Num 1 | Some n \<Rightarrow> n)) rest"
    by (simp add: assms(3))
qed

lemma bound_authFetch_chain_steps:
  assumes "accepted r = Some c" and "chainId c = Num 0 \<or> chainId c = NaN"
    and "events_of (bound_authFetch e options input init s) = HttpCall req (Inr r) # rest"
  shows "challenge_steps
           (message_for_chain (address options)
              (case chainId_option options of None \<Rightarrow> Num 1 | Some n \<Rightarrow> n) (url_of input) c)
           c (url_host e (url_of input)) rest
         \<and> list_all (uses_chain (case chainId_option options of None \<Rightarrow> Num 1 | Some n \<Rightarrow> n)) rest"
proof
  note f = falsy_chainId [OF assms(2), of options]
  show "challenge_steps
           (message_for_chain (address options)
              (case chainId_option options of None \<Rightarrow> Num 1 | Some n \<Rightarrow> n) (url_of input) c)
           c (url_host e (url_of input)) rest"
    using bound_authFetch_steps(1) [OF assms(1,3)] by (simp only: f [THEN conjunct1])
  from bound_authFetch_steps(2) [OF assms(1,3)] obtain h where
    h: "parseWWWAuthenticateChallenge h = Some c" "ParseCall h \<in> set rest" by blast
  from h(2) have "ParseCall h \<in> set (events_of (bound_authFetch e options input init s))"
    by (simp add: assms(3))
  from bound_authFetch_uses_chain [OF h(1) f [THEN conjunct2] this]
  show "list_all (uses_chain (case chainId_option options of None \<Rightarrow> Num 1 | Some n \<Rightarrow> n)) rest"
    by (simp add: assms(3))
qed

lemma sample_accepted:
  "accepted (challenge_401 (Some sample_challenge)) = Some sample_parsed"
  by (simp add: accepted_def challenge_401_def parse_sample sample_parsed_def)

lemma sample_bound_authFetch:
  "events_of (bound_authFetch sample_env sample_options (UrlString sample_url) (Some sample_init)
       (createAuthFetch sample_options, ()))
     = sample_trace (Resource (UrlString sample_url) (Some ()) Map.empty) (Num 5)
         [TokenCall (Some (JStr ''T1'')) (Some (JStr ''a b'')) (Inr ())]
         (Resource (UrlString sample_url) (Some ()) [''authorization'' \<mapsto> ''Bearer T1''])
         resource_200"
  by (simp add: bound_authFetch_def createAuthFetch_def sample_simps)

lemma sample_trace_Cons:
  "sample_trace first n notified retry final
     = HttpCall first (Inr (challenge_401 (Some sample_challenge)))
         # tl (sample_trace first n notified retry final)"
  by (simp add: sample_trace_def)

lemma sample_host: "url_host sample_env u = Some ''api.example''"
  by (simp add: sample_env_def world_with_def)

lemma sample_message_args:
  "message_args ''0xA'' n sample_url sample_parsed (Some (JStr ''N1'')) ''api.example''
     = sample_siwe_args n"
  by (simp add: message_args_def sample_siwe_args_def sample_parsed_def)

lemma sample_message_chain:
  "message_for_chain ''0xA'' n sample_url sample_parsed (Some (JStr ''N1'')) ''api.example''
     (sample_siwe_args n)"
  by (simp add: message_for_chain_def sample_message_args)

lemma sample_message_scope:
  "message_for_scope ''0xA'' sample_url sample_parsed (Some (JStr ''N1'')) ''api.example''
     (sample_siwe_args n)"
  by (rule message_for_chain_scope) (rule sample_message_chain)

lemma default_bound_authFetch:
  "events_of (bound_authFetch sample_env (sample_options\<lparr>chainId_option := None\<rparr>)
       (UrlString sample_url) (Some sample_init)
       (createAuthFetch (sample_options\<lparr>chainId_option := None\<rparr>), ()))
     = sample_trace (Resource (UrlString sample_url) (Some ()) Map.empty) (Num 1)
         [TokenCall (Some (JStr ''T1'')) (Some (JStr ''a b'')) (Inr ())]
         (Resource (UrlString sample_url) (Some ()) [''authorization'' \<mapsto> ''Bearer T1''])
         resource_200"
  by (simp add: bound_authFetch_def createAuthFetch_def sample_simps)

text \<open>
  C9. When the first response \<open>r\<close> of a run carries a challenge \<open>c\<close> that the
  orchestrator acts on (status 401, a header that the parser reads as \<open>c\<close>, the
  supported signing scheme), the calls after the first request begin, in every
  orchestrator, with the parser call and the nonce request. When the nonce came back and
  the request URL has a host, the message is built next, its resources being
  \<^verbatim>\<open>"urn:oauth:scope:" + piece\<close> for the pieces of \<^verbatim>\<open>c.scope.split(" ")\<close>, in order
  (every argument but the chain id is that of \<open>message_args\<close>). When the message was
  built the signer is called with it, and when the signer gave a signature the token
  exchange is posted to the token URI of \<open>c\<close>, its body holding that message, that
  signature and the scope string of \<open>c\<close> as it is. A step is missing only when the step
  before it failed. No other message or exchange of the run uses the scope in another
  way. The split is at every single space and nothing else: joining the pieces with one
  space gives the scope string back, and no piece holds a space.
\<close>

theorem scope_verbatim_and_split:
  assumes "accepted r = Some c"
  shows "(events_of (authFetch e input options fetchInit w) = HttpCall req (Inr r) # rest \<longrightarrow>
            challenge_steps
              (message_for_scope (address options) (url_of input) c)
              c (url_host e (url_of input)) rest
            \<and> list_all (uses_scope c) rest)
       \<and> (events_of (bound_authFetch e options input init s) = HttpCall req (Inr r) # rest \<longrightarrow>
            challenge_steps
              (message_for_scope (address options) (url_of input) c)
              c (url_host e (url_of input)) rest
            \<and> list_all (uses_scope c) rest)
       \<and> (events_of (authFetch_oneshot e input options fetchInit w) = HttpCall req (Inr r) # rest \<longrightarrow>
            challenge_steps
              (message_for_scope (address options) (url_of input) c)
              c (url_host e (url_of input)) rest
            \<and> list_all (uses_scope c) rest)
       \<and> (events_of (fetchWithOAuth e url sign addr existing w) = HttpCall req (Inr r) # rest \<longrightarrow>
            challenge_steps (message_for_scope addr url c) c (url_host e url) rest
            \<and> list_all (uses_scope c) rest)
       \<and> join_with '' '' (split_on CHR '' '' (scope c)) = scope c
       \<and> (\<forall>p \<in> set (split_on CHR '' '' (scope c)). CHR '' '' \<notin> set p)"
proof -
  have a: "events_of (authFetch e input options fetchInit w) = HttpCall req (Inr r) # rest \<longrightarrow>
            challenge_steps
              (message_for_scope (address options) (url_of input) c)
              c (url_host e (url_of input)) rest
            \<and> list_all (uses_scope c) rest"
    by (rule impI) (erule authFetch_scope_steps [OF assms])
  have b: "events_of (bound_authFetch e options input init s) = HttpCall req (Inr r) # rest \<longrightarrow>
            challenge_steps
              (message_for_scope (address options) (url_of input) c)
              c (url_host e (url_of input)) rest
            \<and> list_all (uses_scope c) rest" for init s
    by (rule impI) (erule bound_authFetch_scope_steps [OF assms])
  have d: "events_of (fetchWithOAuth e url sign addr existing w) = HttpCall req (Inr r) # rest \<longrightarrow>
            challenge_steps (message_for_scope addr url c) c (url_host e url) rest
            \<and> list_all (uses_scope c) rest"
    by (rule impI) (erule fetchWithOAuth_scope_steps [OF assms])
  have p: "\<forall>p \<in> set (split_on CHR '' '' (scope c)). CHR '' '' \<notin> set p"
    by (rule ballI) (erule split_on_pieces)
  show ?thesis
    unfolding run_authFetch_oneshot
    by (intro conjI) (rule a, rule b, rule b, rule d, rule split_on_join, rule p)
qed

theorem scope_verbatim_and_split_witness:
  "accepted (challenge_401 (Some sample_challenge)) = Some sample_parsed
   \<and> scope sample_parsed = ''a b''
   \<and> events_of (authFetch sample_env (UrlString sample_url) sample_options sample_init ())
     = sample_trace (Resource (UrlString sample_url) (Some ()) Map.empty) (Num 5)
         [TokenCall (Some (JStr ''T1'')) (Some (JStr ''a b'')) (Inr ())]
         (Resource (UrlString sample_url) (Some ()) [''authorization'' \<mapsto> ''Bearer T1''])
         resource_200
   \<and> events_of (bound_authFetch sample_env sample_options (UrlString sample_url) (Some sample_init)
        (createAuthFetch sample_options, ()))
     = events_of (authFetch sample_env (UrlString sample_url) sample_options sample_init ())
   \<and> events_of (authFetch_oneshot sample_env (UrlString sample_url) sample_options sample_init ())
     = events_of (authFetch sample_env (UrlString sample_url) sample_options sample_init ())
   \<and> events_of (fetchWithOAuth sample_env sample_url sample_signer ''0xA'' None ())
     = sample_trace (Resource (UrlString sample_url) None Map.empty) (Num 1) []
         (Resource (UrlString sample_url) None [''authorization'' \<mapsto> ''Bearer T1''])
         resource_200
   \<and> challenge_steps (message_for_scope ''0xA'' sample_url sample_parsed)
        sample_parsed (Some ''api.example'')
        (tl (events_of (authFetch sample_env (UrlString sample_url) sample_options sample_init ())))
   \<and> list_all (uses_scope sample_parsed)
        (tl (events_of (authFetch sample_env (UrlString sample_url) sample_options sample_init ())))
   \<and> challenge_steps (message_for_scope ''0xA'' sample_url sample_parsed)
        sample_parsed (Some ''api.example'')
        (tl (events_of (bound_authFetch sample_env sample_options (UrlString sample_url)
               (Some sample_init) (createAuthFetch sample_options, ()))))
   \<and> list_all (uses_scope sample_parsed)
        (tl (events_of (bound_authFetch sample_env sample_options (UrlString sample_url)
               (Some sample_init) (createAuthFetch sample_options, ()))))
   \<and> challenge_steps (message_for_scope ''0xA'' sample_url sample_parsed)
        sample_parsed (Some ''api.example'')
        (tl (events_of (authFetch_oneshot sample_env (UrlString sample_url) sample_options
               sample_init ())))
   \<and> list_all (uses_scope sample_parsed)
        (tl (events_of (authFetch_oneshot sample_env (UrlString sample_url) sample_options
               sample_init ())))
   \<and> challenge_steps (message_for_scope ''0xA'' sample_url sample_parsed)
        sample_parsed (Some ''api.example'')
        (tl (events_of (fetchWithOAuth sample_env sample_url sample_signer ''0xA'' None ())))
   \<and> list_all (uses_scope sample_parsed)
        (tl (events_of (fetchWithOAuth sample_env sample_url sample_signer ''0xA'' None ())))
   \<and> message_for_scope ''0xA'' sample_url sample_parsed (Some (JStr ''N1'')) ''api.example''
        (sample_siwe_args (Num 5))
   \<and> resources (sample_siwe_args (Num 5)) = [''urn:oauth:scope:a'', ''urn:oauth:scope:b'']
   \<and> body_scope (case sample_exchange of PostJson u b \<Rightarrow> b) = ''a b''
   \<and> split_on CHR '' '' ''a  b'' = [''a'', [], ''b'']"
proof -
  let ?A = "authFetch sample_env (UrlString sample_url) sample_options sample_init ()"
  let ?B = "bound_authFetch sample_env sample_options (UrlString sample_url) (Some sample_init)
              (createAuthFetch sample_options, ())"
  let ?O = "authFetch_oneshot sample_env (UrlString sample_url) sample_options sample_init ()"
  let ?F = "fetchWithOAuth sample_env sample_url sample_signer ''0xA'' None ()"
  note t = scope_verbatim_and_split [OF sample_accepted]
  have o: "events_of ?O = events_of ?B" by (rule run_authFetch_oneshot(2))
  have ba: "events_of ?B = events_of ?A" by (simp only: sample_bound_authFetch sample_authFetch(1))
  have ea: "events_of ?A = HttpCall (Resource (UrlString sample_url) (Some ()) Map.empty)
              (Inr (challenge_401 (Some sample_challenge))) # tl (events_of ?A)"
    unfolding sample_authFetch(1) by (rule sample_trace_Cons)
  have eb: "events_of ?B = HttpCall (Resource (UrlString sample_url) (Some ()) Map.empty)
              (Inr (challenge_401 (Some sample_challenge))) # tl (events_of ?B)"
    unfolding sample_bound_authFetch by (rule sample_trace_Cons)
  have eo: "events_of ?O = HttpCall (Resource (UrlString sample_url) (Some ()) Map.empty)
              (Inr (challenge_401 (Some sample_challenge))) # tl (events_of ?O)"
    unfolding o sample_bound_authFetch by (rule sample_trace_Cons)
  have ef: "events_of ?F = HttpCall (Resource (UrlString sample_url) None Map.empty)
              (Inr (challenge_401 (Some sample_challenge))) # tl (events_of ?F)"
    unfolding sample_fetchWithOAuth(1) by (rule sample_trace_Cons)
  have v: "address sample_options = ''0xA''" "url_of (UrlString sample_url) = sample_url"
    by (simp_all add: sample_options_def)
  from t [THEN conjunct1, rule_format, OF ea]
  have a: "challenge_steps (message_for_scope ''0xA'' sample_url sample_parsed)
             sample_parsed (Some ''api.example'') (tl (events_of ?A))
           \<and> list_all (uses_scope sample_parsed) (tl (events_of ?A))"
    by (simp only: sample_host v)
  from t [THEN conjunct2, THEN conjunct1, rule_format, OF eb]
  have b: "challenge_steps (message_for_scope ''0xA'' sample_url sample_parsed)
             sample_parsed (Some ''api.example'') (tl (events_of ?B))
           \<and> list_all (uses_scope sample_parsed) (tl (events_of ?B))"
    by (simp only: sample_host v)
  from t [THEN conjunct2, THEN conjunct2, THEN conjunct1, rule_format, OF eo]
  have c: "challenge_steps (message_for_scope ''0xA'' sample_url sample_parsed)
             sample_parsed (Some ''api.example'') (tl (events_of ?O))
           \<and> list_all (uses_scope sample_parsed) (tl (events_of ?O))"
    by (simp only: sample_host v)
  from t [THEN conjunct2, THEN conjunct2, THEN conjunct2, THEN conjunct1, rule_format, OF ef]
  have d: "challenge_steps (message_for_scope ''0xA'' sample_url sample_parsed)
             sample_parsed (Some ''api.example'') (tl (events_of ?F))
           \<and> list_all (uses_scope sample_parsed) (tl (events_of ?F))"
    by (simp only: sample_host)
  have s: "scope sample_parsed = ''a b''" by (simp add: sample_parsed_def)
  have r: "resources (sample_siwe_args (Num 5)) = [''urn:oauth:scope:a'', ''urn:oauth:scope:b'']"
    by (simp add: sample_siwe_args_def)
  have x: "body_scope (case sample_exchange of PostJson u b \<Rightarrow> b) = ''a b''"
    by (simp add: sample_exchange_def)
  have p: "split_on CHR '' '' ''a  b'' = [''a'', [], ''b'']" by simp
  show ?thesis
    by (intro conjI)
       (rule sample_accepted, rule s, rule sample_authFetch(1), rule ba, simp only: o ba,
        rule sample_fetchWithOAuth(1),
        rule a [THEN conjunct1], rule a [THEN conjunct2],
        rule b [THEN conjunct1], rule b [THEN conjunct2],
        rule c [THEN conjunct1], rule c [THEN conjunct2],
        rule d [THEN conjunct1], rule d [THEN conjunct2],
        rule sample_message_scope, rule r, rule x, rule p)
qed

text \<open>
  C10. When the first response of a run of \<^verbatim>\<open>authFetch\<close> (either copy) or of the
  function made by \<^verbatim>\<open>createAuthFetch\<close> carries a challenge that the orchestrator acts
  on and whose chain id is 0 or \<^verbatim>\<open>NaN\<close>, the calls after the first request are the
  parser call, the nonce request and, when the nonce came back and the request URL has a
  host, the message built with the caller's \<^verbatim>\<open>chainId\<close> option, and with 1 when the
  caller gave none (all the arguments are those of \<open>message_args\<close> for that chain);
  then the signer and the token exchange, each when the step before it succeeded. No
  message of the run is built with another chain id. \<^verbatim>\<open>fetchWithOAuth\<close> builds the
  message with chain id 1 for every challenge it acts on, whatever the chain id of the
  challenge, and no run of it builds a message with another chain id.
\<close>

theorem falsy_chain_id_fallback:
  assumes "accepted r = Some c" and "chainId c = Num 0 \<or> chainId c = NaN"
    and "accepted r' = Some c'"
  shows "(events_of (authFetch e input options fetchInit w) = HttpCall req (Inr r) # rest \<longrightarrow>
            challenge_steps
              (message_for_chain (address options)
                 (case chainId_option options of None \<Rightarrow> Num 1 | Some n \<Rightarrow> n) (url_of input) c)
              c (url_host e (url_of input)) rest
            \<and> list_all (uses_chain (case chainId_option options of None \<Rightarrow> Num 1 | Some n \<Rightarrow> n))
                rest)
       \<and> (events_of (bound_authFetch e options input init s) = HttpCall req (Inr r) # rest \<longrightarrow>
            challenge_steps
              (message_for_chain (address options)
                 (case chainId_option options of None \<Rightarrow> Num 1 | Some n \<Rightarrow> n) (url_of input) c)
              c (url_host e (url_of input)) rest
            \<and> list_all (uses_chain (case chainId_option options of None \<Rightarrow> Num 1 | Some n \<Rightarrow> n))
                rest)
       \<and> (events_of (authFetch_oneshot e input options fetchInit w) = HttpCall req (Inr r) # rest \<longrightarrow>
            challenge_steps
              (message_for_chain (address options)
                 (case chainId_option options of None \<Rightarrow> Num 1 | Some n \<Rightarrow> n) (url_of input) c)
              c (url_host e (url_of input)) rest
            \<and> list_all (uses_chain (case chainId_option options of None \<Rightarrow> Num 1 | Some n \<Rightarrow> n))
                rest)
       \<and> (events_of (fetchWithOAuth e url sign addr existing w) = HttpCall req (Inr r') # rest \<longrightarrow>
            challenge_steps (message_for_chain addr (Num 1) url c') c' (url_host e url) rest)
       \<and> list_all (uses_chain (Num 1)) (events_of (fetchWithOAuth e url sign addr existing w))"
proof -
  have a: "events_of (authFetch e input options fetchInit w) = HttpCall req (Inr r) # rest \<longrightarrow>
            challenge_steps
              (message_for_chain (address options)
                 (case chainId_option options of None \<Rightarrow> Num 1 | Some n \<Rightarrow> n) (url_of input) c)
              c (url_host e (url_of input)) rest
            \<and> list_all (uses_chain (case chainId_option options of None \<Rightarrow> Num 1 | Some n \<Rightarrow> n))
                rest"
    by (rule impI) (erule authFetch_chain_steps [OF assms(1,2)])
  have b: "events_of (bound_authFetch e options input init s) = HttpCall req (Inr r) # rest \<longrightarrow>
            challenge_steps
              (message_for_chain (address options)
                 (case chainId_option options of None \<Rightarrow> Num 1 | Some n \<Rightarrow> n) (url_of input) c)
              c (url_host e (url_of input)) rest
            \<and> list_all (uses_chain (case chainId_option options of None \<Rightarrow> Num 1 | Some n \<Rightarrow> n))
                rest" for init s
    by (rule impI) (erule bound_authFetch_chain_steps [OF assms(1,2)])
  have d: "events_of (fetchWithOAuth e url sign addr existing w) = HttpCall req (Inr r') # rest \<longrightarrow>
            challenge_steps (message_for_chain addr (Num 1) url c') c' (url_host e url) rest"
    by (rule impI) (erule fetchWithOAuth_steps(1) [OF assms(3)])
  show ?thesis
    unfolding run_authFetch_oneshot
    by (intro conjI) (rule a, rule b, rule b, rule d, rule fetchWithOAuth_uses_chain)
qed

theorem falsy_chain_id_fallback_witness:
  "parseInt ''0'' = Num 0
   \<and> parseInt ''mainnet'' = NaN
   \<and> accepted (challenge_401 (Some sample_challenge)) = Some sample_parsed
   \<and> chainId sample_parsed = Num 0
   \<and> chainId_option sample_options = Some (Num 5)
   \<and> events_of (authFetch sample_env (UrlString sample_url) sample_options sample_init ())
     = sample_trace (Resource (UrlString sample_url) (Some ()) Map.empty) (Num 5)
         [TokenCall (Some (JStr ''T1'')) (Some (JStr ''a b'')) (Inr ())]
         (Resource (UrlString sample_url) (Some ()) [''authorization'' \<mapsto> ''Bearer T1''])
         resource_200
   \<and> events_of (bound_authFetch sample_env sample_options (UrlString sample_url) (Some sample_init)
        (createAuthFetch sample_options, ()))
     = events_of (authFetch sample_env (UrlString sample_url) sample_options sample_init ())
   \<and> events_of (authFetch_oneshot sample_env (UrlString sample_url) sample_options sample_init ())
     = events_of (authFetch sample_env (UrlString sample_url) sample_options sample_init ())
   \<and> events_of (bound_authFetch sample_env (sample_options\<lparr>chainId_option := None\<rparr>)
        (UrlString sample_url) (Some sample_init)
        (createAuthFetch (sample_options\<lparr>chainId_option := None\<rparr>), ()))
     = sample_trace (Resource (UrlString sample_url) (Some ()) Map.empty) (Num 1)
         [TokenCall (Some (JStr ''T1'')) (Some (JStr ''a b'')) (Inr ())]
         (Resource (UrlString sample_url) (Some ()) [''authorization'' \<mapsto> ''Bearer T1''])
         resource_200
   \<and> events_of (fetchWithOAuth sample_env sample_url sample_signer ''0xA'' None ())
     = sample_trace (Resource (UrlString sample_url) None Map.empty) (Num 1) []
         (Resource (UrlString sample_url) None [''authorization'' \<mapsto> ''Bearer T1''])
         resource_200
   \<and> challenge_steps (message_for_chain ''0xA'' (Num 5) sample_url sample_parsed)
        sample_parsed (Some ''api.example'')
        (tl (events_of (authFetch sample_env (UrlString sample_url) sample_options sample_init ())))
   \<and> challenge_steps (message_for_chain ''0xA'' (Num 5) sample_url sample_parsed)
        sample_parsed (Some ''api.example'')
        (tl (events_of (bound_authFetch sample_env sample_options (UrlString sample_url)
               (Some sample_init) (createAuthFetch sample_options, ()))))
   \<and> challenge_steps (message_for_chain ''0xA'' (Num 5) sample_url sample_parsed)
        sample_parsed (Some ''api.example'')
        (tl (events_of (authFetch_oneshot sample_env (UrlString sample_url) sample_options
               sample_init ())))
   \<and> challenge_steps (message_for_chain ''0xA'' (Num 1) sample_url sample_parsed)
        sample_parsed (Some ''api.example'')
        (tl (events_of (bound_authFetch sample_env (sample_options\<lparr>chainId_option := None\<rparr>)
               (UrlString sample_url) (Some sample_init)
               (createAuthFetch (sample_options\<lparr>chainId_option := None\<rparr>), ()))))
   \<and> challenge_steps (message_for_chain ''0xA'' (Num 1) sample_url sample_parsed)
        sample_parsed (Some ''api.example'')
        (tl (events_of (fetchWithOAuth sample_env sample_url sample_signer ''0xA'' None ())))
   \<and> list_all (uses_chain (Num 1))
        (events_of (fetchWithOAuth sample_env sample_url sample_signer ''0xA'' None ()))
   \<and> siwe_chainId (message_args ''0xA'' (Num 5) sample_url sample_parsed (Some (JStr ''N1''))
        ''api.example'') = Num 5
   \<and> message_for_chain ''0xA'' (Num 5) sample_url sample_parsed (Some (JStr ''N1''))
        ''api.example'' (sample_siwe_args (Num 5))"
proof -
  let ?A = "authFetch sample_env (UrlString sample_url) sample_options sample_init ()"
  let ?B = "bound_authFetch sample_env sample_options (UrlString sample_url) (Some sample_init)
              (createAuthFetch sample_options, ())"
  let ?O = "authFetch_oneshot sample_env (UrlString sample_url) sample_options sample_init ()"
  let ?D = "bound_authFetch sample_env (sample_options\<lparr>chainId_option := None\<rparr>)
              (UrlString sample_url) (Some sample_init)
              (createAuthFetch (sample_options\<lparr>chainId_option := None\<rparr>), ())"
  let ?F = "fetchWithOAuth sample_env sample_url sample_signer ''0xA'' None ()"
  have z: "chainId sample_parsed = Num 0 \<or> chainId sample_parsed = NaN"
    by (simp add: sample_parsed_def)
  note t = falsy_chain_id_fallback [OF sample_accepted z sample_accepted]
  have o: "events_of ?O = events_of ?B" by (rule run_authFetch_oneshot(2))
  have ba: "events_of ?B = events_of ?A" by (simp only: sample_bound_authFetch sample_authFetch(1))
  have ea: "events_of ?A = HttpCall (Resource (UrlString sample_url) (Some ()) Map.empty)
              (Inr (challenge_401 (Some sample_challenge))) # tl (events_of ?A)"
    unfolding sample_authFetch(1) by (rule sample_trace_Cons)
  have eb: "events_of ?B = HttpCall (Resource (UrlString sample_url) (Some ()) Map.empty)
              (Inr (challenge_401 (Some sample_challenge))) # tl (events_of ?B)"
    unfolding sample_bound_authFetch by (rule sample_trace_Cons)
  have eo: "events_of ?O = HttpCall (Resource (UrlString sample_url) (Some ()) Map.empty)
              (Inr (challenge_401 (Some sample_challenge))) # tl (events_of ?O)"
    unfolding o sample_bound_authFetch by (rule sample_trace_Cons)
  have ed: "events_of ?D = HttpCall (Resource (UrlString sample_url) (Some ()) Map.empty)
              (Inr (challenge_401 (Some sample_challenge))) # tl (events_of ?D)"
    unfolding default_bound_authFetch by (rule sample_trace_Cons)
  have ef: "events_of ?F = HttpCall (Resource (UrlString sample_url) None Map.empty)
              (Inr (challenge_401 (Some sample_challenge))) # tl (events_of ?F)"
    unfolding sample_fetchWithOAuth(1) by (rule sample_trace_Cons)
  have v: "address sample_options = ''0xA''" "url_of (UrlString sample_url) = sample_url"
    "address (sample_options\<lparr>chainId_option := None\<rparr>) = ''0xA''"
    "(case chainId_option sample_options of None \<Rightarrow> Num 1 | Some n \<Rightarrow> n) = Num 5"
    "(case chainId_option (sample_options\<lparr>chainId_option := None\<rparr>) of
        None \<Rightarrow> Num 1 | Some n \<Rightarrow> n) = Num 1"
    by (simp_all add: sample_options_def)
  from t [THEN conjunct1, rule_format, OF ea, THEN conjunct1]
  have a: "challenge_steps (message_for_chain ''0xA'' (Num 5) sample_url sample_parsed)
             sample_parsed (Some ''api.example'') (tl (events_of ?A))"
    by (simp only: sample_host v)
  from t [THEN conjunct2, THEN conjunct1, rule_format, OF eb, THEN conjunct1]
  have b: "challenge_steps (message_for_chain ''0xA'' (Num 5) sample_url sample_parsed)
             sample_parsed (Some ''api.example'') (tl (events_of ?B))"
    by (simp only: sample_host v)
  from t [THEN conjunct2, THEN conjunct2, THEN conjunct1, rule_format, OF eo, THEN conjunct1]
  have c: "challenge_steps (message_for_chain ''0xA'' (Num 5) sample_url sample_parsed)
             sample_parsed (Some ''api.example'') (tl (events_of ?O))"
    by (simp only: sample_host v)
  from t [THEN conjunct2, THEN conjunct1, rule_format, OF ed, THEN conjunct1]
  have d: "challenge_steps (message_for_chain ''0xA'' (Num 1) sample_url sample_parsed)
             sample_parsed (Some ''api.example'') (tl (events_of ?D))"
    by (simp only: sample_host v)
  from t [THEN conjunct2, THEN conjunct2, THEN conjunct2, THEN conjunct1, rule_format, OF ef]
  have f: "challenge_steps (message_for_chain ''0xA'' (Num 1) sample_url sample_parsed)
             sample_parsed (Some ''api.example'') (tl (events_of ?F))"
    by (simp only: sample_host)
  note g = t [THEN conjunct2, THEN conjunct2, THEN conjunct2, THEN conjunct2,
      of sample_env sample_url sample_signer "''0xA''" None "()"]
  have i: "parseInt ''0'' = Num 0" "parseInt ''mainnet'' = NaN" by code_simp+
  have k: "chainId sample_parsed = Num 0" by (simp add: sample_parsed_def)
  have m: "chainId_option sample_options = Some (Num 5)" by (simp add: sample_options_def)
  have q: "siwe_chainId (message_args ''0xA'' (Num 5) sample_url sample_parsed
             (Some (JStr ''N1'')) ''api.example'') = Num 5"
    by (simp add: message_args_def)
  show ?thesis
    by (intro conjI)
       (rule i(1), rule i(2), rule sample_accepted, rule k, rule m, rule sample_authFetch(1),
        rule ba, simp only: o ba, rule default_bound_authFetch, rule sample_fetchWithOAuth(1),
        rule a, rule b, rule c, rule d, rule f, rule g, rule q, rule sample_message_chain)
qed

end
